theory Spec2Isabelle
  imports Main "HOL-Library.Sublist" "HOL-Library.AList"
begin

section \<open>JavaScript values\<close>

text \<open>
  The two source files are JavaScript. The values that reach the modelled functions are
  data: primitives, strings, arrays and plain objects whose properties are data again.
  No value of the model is a function, so no property of an object is callable.

  A string is a list of code units. The model uses Isabelle's 8-bit characters, read as
  Latin-1: a \<open>char\<close> with code \<open>n\<close> is the code unit \<open>n\<close>. This is the range of the
  header names and values that an HTTP parser hands over.

  A number is an integral number; \<open>NaN\<close>, the infinities and fractions are left out.

  An object is the list of its own enumerable properties, each name once, in the order
  in which \<open>for ... in\<close> and \<open>Object.keys\<close> enumerate them; a property is read with
  \<open>get\<close>, which gives \<open>undefined\<close> for a name that is not there.
\<close>

datatype js_value =
    JUndefined
  | JNull
  | JBool bool
  | JNum int
  | JStr string
  | JArr "js_value list"
  | JObj "(string \<times> js_value) list"

type_synonym js_object = "(string \<times> js_value) list"

text \<open>A thrown error: its constructor name and its \<open>message\<close> property.\<close>

datatype js_error = JsError (error_name: string) (error_message: string)

text \<open>\<open>obj[name]\<close> on an object.\<close>

definition get :: "js_object \<Rightarrow> string \<Rightarrow> js_value" where
  "get obj name = (case map_of obj name of None \<Rightarrow> JUndefined | Some v \<Rightarrow> v)"

text \<open>\<open>Object.keys(obj)\<close>, also the order of \<open>for (const key in obj)\<close>.\<close>

definition keys :: "js_object \<Rightarrow> string list" where
  "keys obj = map fst obj"

text \<open>The truth value of a value in a condition (\<open>if (value)\<close>, \<open>!value\<close>, \<open>||\<close>).\<close>

fun truthy :: "js_value \<Rightarrow> bool" where
  "truthy JUndefined = False"
| "truthy JNull = False"
| "truthy (JBool b) = b"
| "truthy (JNum n) = (n \<noteq> 0)"
| "truthy (JStr s) = (s \<noteq> [])"
| "truthy (JArr xs) = True"
| "truthy (JObj ps) = True"

text \<open>\<open>a || b\<close>.\<close>

definition js_or :: "js_value \<Rightarrow> js_value \<Rightarrow> js_value" where
  "js_or a b = (if truthy a then a else b)"

text \<open>\<open>typeof v === 'string'\<close>.\<close>

fun is_string :: "js_value \<Rightarrow> bool" where
  "is_string (JStr s) = True"
| "is_string v = False"

subsection \<open>Conversion to string\<close>

text \<open>Decimal digits of a natural number, as \<open>Number.prototype.toString\<close> prints them.\<close>

fun string_of_nat :: "nat \<Rightarrow> string" where
  "string_of_nat n =
     (if n < 10 then [char_of (48 + n)]
      else string_of_nat (n div 10) @ [char_of (48 + n mod 10)])"

declare string_of_nat.simps [simp del]

definition string_of_int :: "int \<Rightarrow> string" where
  "string_of_int i = (if i < 0 then CHR ''-'' # string_of_nat (nat (- i)) else string_of_nat (nat i))"

text \<open>\<open>xs.join(',')\<close> on a list of strings.\<close>

fun join_comma :: "string list \<Rightarrow> string" where
  "join_comma [] = []"
| "join_comma [s] = s"
| "join_comma (s # t # ss) = s @ CHR '','' # join_comma (t # ss)"

text \<open>The results of a list of conversions, or the first error among them.\<close>

fun collect :: "(js_error + 'a) list \<Rightarrow> js_error + 'a list" where
  "collect [] = Inr []"
| "collect (Inl e # rs) = Inl e"
| "collect (Inr x # rs) = (case collect rs of Inl e \<Rightarrow> Inl e | Inr xs \<Rightarrow> Inr (x # xs))"

text \<open>
  \<open>String(v)\<close>, which can raise. An array is joined with commas, its elements
  converted in turn, \<open>null\<close> and \<open>undefined\<close> elements giving the empty string. A
  plain object is converted by the method \<open>toString\<close> it inherits, which gives
  \<open>[object Object]\<close>; when the object has an own property named \<open>toString\<close>, that
  property hides the inherited method and is not callable, the inherited \<open>valueOf\<close>
  gives back the object, and the conversion raises a \<open>TypeError\<close> (the message is
  the one of V8).
\<close>

fun js_String :: "js_value \<Rightarrow> js_error + string" where
  "js_String JUndefined = Inr ''undefined''"
| "js_String JNull = Inr ''null''"
| "js_String (JBool b) = Inr (if b then ''true'' else ''false'')"
| "js_String (JNum n) = Inr (string_of_int n)"
| "js_String (JStr s) = Inr s"
| "js_String (JArr xs) =
     (case collect
             (map (\<lambda>x. case x of JUndefined \<Rightarrow> Inr [] | JNull \<Rightarrow> Inr [] | _ \<Rightarrow> js_String x) xs) of
        Inl e \<Rightarrow> Inl e
      | Inr ss \<Rightarrow> Inr (join_comma ss))"
| "js_String (JObj ps) =
     (if ''toString'' \<in> set (map fst ps)
      then Inl (JsError ''TypeError'' ''Cannot convert object to primitive value'')
      else Inr ''[object Object]'')"

text \<open>The characters of a value that is a string, read after \<open>typeof v === 'string'\<close> held.\<close>

fun str_of :: "js_value \<Rightarrow> string" where
  "str_of (JStr s) = s"
| "str_of v = []"

subsection \<open>String methods\<close>

text \<open>
  \<open>String.prototype.toUpperCase\<close> on Latin-1: \<open>a\<close>..\<open>z\<close> and the accented letters
  \<open>0xE0\<close>..\<open>0xFE\<close> (without the division sign \<open>0xF7\<close>) move down by 32, and the sharp s
  \<open>0xDF\<close> becomes the two letters \<open>SS\<close>. The micro sign \<open>0xB5\<close> and \<open>0xFF\<close> have
  upper-case forms outside Latin-1 (\<open>U+039C\<close>, \<open>U+0178\<close>), which no 8-bit character
  stands for; the model leaves these two as they are. Neither they nor their upper-case
  forms are letters \<open>A\<close>..\<open>Z\<close> or white space.
\<close>

definition upper_char :: "char \<Rightarrow> string" where
  "upper_char c =
     (let n = (of_char c :: nat) in
      if 97 \<le> n \<and> n \<le> 122 then [char_of (n - 32)]
      else if n = 223 then ''SS''
      else if 224 \<le> n \<and> n \<le> 254 \<and> n \<noteq> 247 then [char_of (n - 32)]
      else [c])"

definition toUpperCase :: "string \<Rightarrow> string" where
  "toUpperCase s = concat (map upper_char s)"

text \<open>
  \<open>String.prototype.toLowerCase\<close> on Latin-1: \<open>A\<close>..\<open>Z\<close> and \<open>0xC0\<close>..\<open>0xDE\<close>
  (without the multiplication sign \<open>0xD7\<close>) move up by 32.
\<close>

definition lower_char :: "char \<Rightarrow> char" where
  "lower_char c =
     (let n = (of_char c :: nat) in
      if 65 \<le> n \<and> n \<le> 90 then char_of (n + 32)
      else if 192 \<le> n \<and> n \<le> 222 \<and> n \<noteq> 215 then char_of (n + 32)
      else c)"

definition toLowerCase :: "string \<Rightarrow> string" where
  "toLowerCase s = map lower_char s"

text \<open>
  White space and line terminators of ECMAScript within Latin-1: tab, line feed,
  vertical tab, form feed, carriage return, space and the no-break space \<open>0xA0\<close>.
\<close>

definition is_space :: "char \<Rightarrow> bool" where
  "is_space c = ((of_char c :: nat) \<in> {9, 10, 11, 12, 13, 32, 160})"

text \<open>\<open>String.prototype.trim\<close>.\<close>

definition trim :: "string \<Rightarrow> string" where
  "trim s = rev (dropWhile is_space (rev (dropWhile is_space s)))"

text \<open>\<open>s.startsWith(p)\<close>.\<close>

definition startsWith :: "string \<Rightarrow> string \<Rightarrow> bool" where
  "startsWith s p = prefix p s"

text \<open>\<open>s.includes(sub)\<close>: \<open>sub\<close> occurs in \<open>s\<close> as a contiguous run of characters.\<close>

fun str_includes :: "string \<Rightarrow> string \<Rightarrow> bool" where
  "str_includes [] sub = (sub = [])"
| "str_includes (c # cs) sub = (prefix sub (c # cs) \<or> str_includes cs sub)"

section \<open>The country endpoint\<close>

text \<open>
  The calls to \<open>Logger\<close> write to the console and return nothing. Their arguments
  are built from strings and header values without converting any of them, and
  \<open>JSON.stringify\<close> does not raise on the values of this model; the calls are left
  out of the definitions below.
\<close>

subsection \<open>isValidCountryCode\<close>

text \<open>The test of the regular expression \<open>/^[A-Z]{2}$/\<close> on a string.\<close>

definition upper_AZ :: "char \<Rightarrow> bool" where
  "upper_AZ c = (65 \<le> (of_char c :: nat) \<and> (of_char c :: nat) \<le> 90)"

fun regex_AZ2_test :: "string \<Rightarrow> bool" where
  "regex_AZ2_test [a, b] = (upper_AZ a \<and> upper_AZ b)"
| "regex_AZ2_test s = False"

definition isValidCountryCode :: "js_value \<Rightarrow> bool" where
  "isValidCountryCode code =
     (if \<not> truthy code \<or> \<not> is_string code then False
      else if length (str_of code) \<noteq> 2 \<or> \<not> regex_AZ2_test (str_of code) then False
      else True)"

subsection \<open>detectCountry\<close>

definition vercelHeaders :: "string list" where
  "vercelHeaders =
     [''x-vercel-ip-country'',
      ''X-Vercel-Ip-Country'',
      ''X-VERCEL-IP-COUNTRY'',
      ''x-vercel-ipcountry'',
      ''X-Vercel-IPCountry'']"

text \<open>
  The first loop, over the names still to try. The third argument is the variable
  \<open>country\<close>; a valid code is stored in it and \<open>break\<close> leaves the loop. The result
  is the variable after the loop, or the error that \<open>String(value)\<close> raised.
\<close>

fun standard_loop :: "js_object \<Rightarrow> string list \<Rightarrow> string \<Rightarrow> js_error + string" where
  "standard_loop headers [] country = Inr country"
| "standard_loop headers (header # rest) country =
     (let value = get headers header in
      if truthy value then
        (case js_String value of
           Inl e \<Rightarrow> Inl e
         | Inr s \<Rightarrow>
             (let code = trim (toUpperCase s) in
              if isValidCountryCode (JStr code) then Inr code
              else standard_loop headers rest country))
      else standard_loop headers rest country)"

text \<open>The second loop, \<open>for (const key in headers)\<close>, over the keys still to visit.\<close>

fun scan_loop :: "js_object \<Rightarrow> string list \<Rightarrow> string \<Rightarrow> js_error + string" where
  "scan_loop headers [] country = Inr country"
| "scan_loop headers (key # rest) country =
     (let lowerKey = toLowerCase key in
      if str_includes lowerKey ''vercel'' \<and> str_includes lowerKey ''country'' then
        (let value = get headers key in
         if truthy value then
           (case js_String value of
              Inl e \<Rightarrow> Inl e
            | Inr s \<Rightarrow>
                (let code = trim (toUpperCase s) in
                 if isValidCountryCode (JStr code) then Inr code
                 else scan_loop headers rest country))
         else scan_loop headers rest country)
      else scan_loop headers rest country)"

text \<open>
  \<open>detectCountry\<close>: \<open>Inr\<close> the string returned, \<open>Inl\<close> the error raised. An error
  raised in a stage ends the function.
\<close>

definition detectCountry :: "js_object \<Rightarrow> js_error + string" where
  "detectCountry headers =
     (let country = ''XX'' in
      case standard_loop headers vercelHeaders country of
        Inl e \<Rightarrow> Inl e
      | Inr country \<Rightarrow>
          (case (if country = ''XX'' then scan_loop headers (keys headers) country
                 else Inr country) of
             Inl e \<Rightarrow> Inl e
           | Inr country \<Rightarrow>
               if country = ''XX'' \<and> truthy (get headers ''cf-ipcountry'') then
                 (case js_String (get headers ''cf-ipcountry'') of
                    Inl e \<Rightarrow> Inl e
                  | Inr s \<Rightarrow>
                      (let code = trim (toUpperCase s) in
                       if isValidCountryCode (JStr code) then Inr code else Inr country))
               else Inr country))"

subsection \<open>getClientIP\<close>

definition ipHeaders :: "string list" where
  "ipHeaders =
     [''x-forwarded-for'',
      ''x-real-ip'',
      ''cf-connecting-ip'',
      ''x-client-ip'',
      ''x-forwarded'',
      ''forwarded-for'',
      ''forwarded'']"

text \<open>
  \<open>Array.isArray(value) ? value[0] : value.split(',')[0].trim()\<close>. Only a string has
  a method \<open>split\<close>: on any other value that is not an array the call raises a
  \<open>TypeError\<close>. The first element of an empty array is \<open>undefined\<close>.
\<close>

fun first_ip :: "js_value \<Rightarrow> js_error + js_value" where
  "first_ip (JArr []) = Inr JUndefined"
| "first_ip (JArr (x # xs)) = Inr x"
| "first_ip (JStr s) = Inr (JStr (trim (takeWhile (\<lambda>c. c \<noteq> CHR '','') s)))"
| "first_ip v = Inl (JsError ''TypeError'' ''value.split is not a function'')"

text \<open>The loop over \<open>ipHeaders\<close>; \<open>return ip\<close> leaves it, a raised error too.\<close>

fun ip_loop :: "js_object \<Rightarrow> string list \<Rightarrow> js_error + js_value" where
  "ip_loop headers [] = Inr (JStr ''unknown'')"
| "ip_loop headers (header # rest) =
     (let value = js_or (get headers header) (get headers (toLowerCase header)) in
      if truthy value then
        (case first_ip value of
           Inl e \<Rightarrow> Inl e
         | Inr ip \<Rightarrow> if truthy ip then Inr ip else ip_loop headers rest)
      else ip_loop headers rest)"

definition getClientIP :: "js_object \<Rightarrow> js_error + js_value" where
  "getClientIP headers = ip_loop headers ipHeaders"

subsection \<open>handler\<close>

text \<open>
  The request: its method, its URL, its headers and its parsed query, which is
  \<open>undefined\<close> (\<open>None\<close>) on a host that does not parse it.
\<close>

record request =
  req_method :: string
  req_url :: string
  req_headers :: js_object
  req_query :: "js_object option"

text \<open>
  The response object as the handler changes it: the status code, the headers set, the
  body sent as JSON (\<open>None\<close> while nothing is sent). What else the host's \<open>json\<close>
  helper does to the headers is not modelled.
\<close>

record response =
  statusCode :: nat
  res_headers :: "(string \<times> string) list"
  res_body :: "js_value option"

definition setHeader :: "string \<Rightarrow> string \<Rightarrow> response \<Rightarrow> response" where
  "setHeader name v res = res\<lparr>res_headers := AList.update name v (res_headers res)\<rparr>"

definition status :: "nat \<Rightarrow> response \<Rightarrow> response" where
  "status code res = res\<lparr>statusCode := code\<rparr>"

definition json :: "js_value \<Rightarrow> response \<Rightarrow> response" where
  "json body res = res\<lparr>res_body := Some body\<rparr>"

text \<open>
  The readings of the clock that end up in the response: \<open>Date.now()\<close> on entry,
  \<open>new Date().toISOString()\<close> for the timestamp, and \<open>Date.now()\<close> inside the debug
  payload. They are parameters of the model.
\<close>

record clock =
  startTime :: int
  isoTimestamp :: string
  debugTime :: int

text \<open>
  \<open>process.env.NODE_ENV === 'development' || req.query.debug === 'true' ||
  req.headers['x-debug'] === 'true'\<close>. The second operand is evaluated only when the
  first is false, and reading \<open>debug\<close> from an undefined \<open>req.query\<close> raises a
  \<open>TypeError\<close> (the message is the one of V8).
\<close>

definition isDebugMode :: "string option \<Rightarrow> request \<Rightarrow> js_error + bool" where
  "isDebugMode node_env req =
     (if node_env = Some ''development'' then Inr True
      else case req_query req of
        None \<Rightarrow> Inl (JsError ''TypeError'' ''Cannot read properties of undefined (reading 'debug')'')
      | Some query \<Rightarrow>
          if get query ''debug'' = JStr ''true'' then Inr True
          else Inr (get (req_headers req) ''x-debug'' = JStr ''true''))"

text \<open>The object stored in \<open>response.debug\<close>.\<close>

definition debug_payload :: "clock \<Rightarrow> request \<Rightarrow> js_value \<Rightarrow> string \<Rightarrow> js_value" where
  "debug_payload clk req clientIP country =
     JObj
       [(''headers'',
           JObj (map (\<lambda>key. (key, get (req_headers req) key))
                  (filter (\<lambda>k. let lowerKey = toLowerCase k in
                                 str_includes lowerKey ''vercel'' \<or>
                                 str_includes lowerKey ''country'' \<or>
                                 str_includes lowerKey ''ip'' \<or>
                                 str_includes lowerKey ''forwarded'')
                     (keys (req_headers req))))),
        (''detected'', JStr country),
        (''clientIP'', clientIP),
        (''processingTime'', JStr (string_of_int (debugTime clk - startTime clk) @ ''ms''))]"

text \<open>
  The \<open>try\<close> block. It gives the response object as it stands when the block ends,
  and the error if the block ended by raising one: the error of \<open>detectCountry\<close>,
  its first statement, or the one of the debug-mode condition.
\<close>

definition try_block ::
  "string option \<Rightarrow> clock \<Rightarrow> request \<Rightarrow> js_value \<Rightarrow> response \<Rightarrow> (js_error + unit) \<times> response" where
  "try_block node_env clk req clientIP res =
     (case detectCountry (req_headers req) of
        Inl e \<Rightarrow> (Inl e, res)
      | Inr country \<Rightarrow>
          (let res = setHeader ''Content-Type'' ''application/json'' res;
               res = setHeader ''Cache-Control'' ''no-cache, no-store, must-revalidate'' res;
               res = setHeader ''Pragma'' ''no-cache'' res;
               res = setHeader ''Expires'' ''0'' res;
               res = setHeader ''X-Content-Type-Options'' ''nosniff'' res;
               response = [(''country'', JStr country), (''timestamp'', JStr (isoTimestamp clk))]
           in case isDebugMode node_env req of
                Inl e \<Rightarrow> (Inl e, res)
              | Inr debugMode \<Rightarrow>
                  (let response =
                         (if debugMode
                          then response @ [(''debug'', debug_payload clk req clientIP country)]
                          else response)
                   in (Inr (), json (JObj response) (status 200 res)))))"

text \<open>The \<open>catch\<close> block.\<close>

definition catch_block :: "string option \<Rightarrow> js_error \<Rightarrow> response \<Rightarrow> response" where
  "catch_block node_env error res =
     (let res = setHeader ''Content-Type'' ''application/json'' res
      in json
           (JObj
              [(''error'', JStr ''Internal server error''),
               (''country'', JStr ''XX''),
               (''message'',
                  JStr (if node_env = Some ''development'' then error_message error
                        else ''An error occurred''))])
           (status 500 res))"

text \<open>
  The handler. \<open>Inl\<close> is an error that leaves the handler; \<open>getClientIP\<close> and the
  method check run before the \<open>try\<close> block.
\<close>

definition handler ::
  "string option \<Rightarrow> clock \<Rightarrow> request \<Rightarrow> response \<Rightarrow> js_error + response" where
  "handler node_env clk req res =
     (case getClientIP (req_headers req) of
        Inl e \<Rightarrow> Inl e
      | Inr clientIP \<Rightarrow>
          if req_method req \<noteq> ''GET'' \<and> req_method req \<noteq> ''POST'' then
            (let res = setHeader ''Allow'' ''GET, POST'' res
             in Inr (json (JObj [(''error'', JStr ''Method not allowed''), (''country'', JStr ''XX'')])
                       (status 405 res)))
          else
            (case try_block node_env clk req clientIP res of
               (Inr u, res) \<Rightarrow> Inr res
             | (Inl error, res) \<Rightarrow> Inr (catch_block node_env error res)))"

section \<open>utils.js\<close>

subsection \<open>isValidUrl\<close>

text \<open>
  \<open>new URL(url)\<close> is the host's parser and a parameter of the model: a function that
  gives the parsed URL or the error that the constructor raises. Of the parsed URL the
  code reads \<open>protocol\<close> and \<open>hostname\<close>. \<open>process.env.NODE_ENV\<close> is a parameter
  too, \<open>None\<close> when the variable is not set.
\<close>

record url_obj =
  protocol :: string
  hostname :: string

type_synonym url_parser = "string \<Rightarrow> js_error + url_obj"

text \<open>The \<open>try\<close> block of \<open>isValidUrl\<close>.\<close>

definition isValidUrl_try :: "url_parser \<Rightarrow> string option \<Rightarrow> js_value \<Rightarrow> js_error + bool" where
  "isValidUrl_try URL node_env url =
     (case URL (str_of url) of
        Inl e \<Rightarrow> Inl e
      | Inr urlObj \<Rightarrow>
          if protocol urlObj \<notin> set [''http:'', ''https:''] then Inr False
          else if hostname urlObj = [] \<or> length (hostname urlObj) = 0 then Inr False
          else if node_env = Some ''production'' then
            (let hostname' = toLowerCase (hostname urlObj) in
             if hostname' = ''localhost'' \<or>
                hostname' = ''127.0.0.1'' \<or>
                startsWith hostname' ''192.168.'' \<or>
                startsWith hostname' ''10.'' \<or>
                startsWith hostname' ''172.''
             then Inr False
             else Inr True)
          else Inr True)"

definition isValidUrl :: "url_parser \<Rightarrow> string option \<Rightarrow> js_value \<Rightarrow> js_error + bool" where
  "isValidUrl URL node_env url =
     (if \<not> truthy url \<or> \<not> is_string url \<or> url = JStr ''#'' then Inr False
      else case isValidUrl_try URL node_env url of
             Inl e \<Rightarrow> Inr False
           | Inr b \<Rightarrow> Inr b)"

subsection \<open>loadConfig and getDefaultConfig\<close>

definition getDefaultConfig :: "js_value" where
  "getDefaultConfig =
     JObj
       [(''redirects'', JObj [(''DEFAULT'', JStr ''https://t.co/y5IrJWOLzN'')]),
        (''counter'',
           JObj [(''key'', JStr ''norieldev''),
                 (''titles'', JObj [(''DEFAULT'', JStr ''NORIEL DEV NULL'')])]),
        (''flags'', JObj [(''DEFAULT'', JStr ''https://flagcdn.com/w320/un.png'')]),
        (''settings'',
           JObj [(''instantRedirectMode'', JBool False),
                 (''minWaitTime'', JNum 1500),
                 (''maxWaitTime'', JNum 3000),
                 (''enableLogging'', JBool True),
                 (''enableVPNDetection'', JBool True),
                 (''vpnDetectionThreshold'', JNum 60)]),
        (''adScripts'', JArr []),
        (''adultDomains'', JArr []),
        (''allowedUrlParams'', JArr [JStr ''id'', JStr ''page'', JStr ''view''])]"

text \<open>
  \<open>fetch\<close> is the host's and a parameter of the model: for a path it gives the error
  with which the promise is rejected, or the response, of which the code reads \<open>ok\<close>,
  \<open>status\<close> and the outcome of \<open>json()\<close>. The model of the \<open>async\<close> function gives
  what its promise settles with: \<open>Inr\<close> the value it is fulfilled with, \<open>Inl\<close> the
  error it is rejected with.
\<close>

record fetch_response =
  resp_ok :: bool
  resp_status :: nat
  resp_json :: "js_error + js_value"

type_synonym fetcher = "string \<Rightarrow> js_error + fetch_response"

text \<open>The \<open>try\<close> block of \<open>loadConfig\<close>.\<close>

definition loadConfig_try :: "fetcher \<Rightarrow> string \<Rightarrow> js_error + js_value" where
  "loadConfig_try fetch configPath =
     (case fetch configPath of
        Inl e \<Rightarrow> Inl e
      | Inr response \<Rightarrow>
          if \<not> resp_ok response then
            Inl (JsError ''Error'' (''HTTP error! status: '' @ string_of_nat (resp_status response)))
          else
            (case resp_json response of
               Inl e \<Rightarrow> Inl e
             | Inr config \<Rightarrow> Inr config))"

text \<open>The argument is \<open>None\<close> when the caller leaves it out; it is then \<open>/config.json\<close>.\<close>

definition loadConfig :: "fetcher \<Rightarrow> string option \<Rightarrow> js_error + js_value" where
  "loadConfig fetch arg =
     (let configPath = (case arg of None \<Rightarrow> ''/config.json'' | Some p \<Rightarrow> p)
      in case loadConfig_try fetch configPath of
           Inl error \<Rightarrow> Inr getDefaultConfig
         | Inr config \<Rightarrow> Inr config)"

section \<open>Notions of the specification\<close>

text \<open>
  The specification speaks of a header value that is normalized (coerced to string,
  upper-cased, trimmed) and then validated, and of a header name that contains both
  \<open>vercel\<close> and \<open>country\<close> once lower-cased. These three definitions follow its words;
  the lemmas below relate the loops of \<open>detectCountry\<close> to them.
\<close>

definition normalized :: "js_value \<Rightarrow> js_error + string" where
  "normalized v = (case js_String v of Inl e \<Rightarrow> Inl e | Inr s \<Rightarrow> Inr (trim (toUpperCase s)))"

definition valid_value :: "js_value \<Rightarrow> bool" where
  "valid_value v =
     (case normalized v of Inl e \<Rightarrow> False | Inr code \<Rightarrow> isValidCountryCode (JStr code))"

text \<open>
  A value that \<open>String\<close> converts without raising; every string, every array of
  strings and every primitive is one. A header map is convertible when all its values
  are.
\<close>

definition converts :: "js_value \<Rightarrow> bool" where
  "converts v = (case js_String v of Inl e \<Rightarrow> False | Inr s \<Rightarrow> True)"

definition convertible :: "js_object \<Rightarrow> bool" where
  "convertible headers = list_all (\<lambda>p. converts (snd p)) headers"

definition fuzzy :: "string \<Rightarrow> bool" where
  "fuzzy key =
     (str_includes (toLowerCase key) ''vercel'' \<and> str_includes (toLowerCase key) ''country'')"

text \<open>
  The host test of the specification: the lower-cased host equals \<open>localhost\<close> or
  \<open>127.0.0.1\<close>, or starts with \<open>192.168.\<close>, \<open>10.\<close> or \<open>172.\<close>.
\<close>

definition blocked_host :: "string \<Rightarrow> bool" where
  "blocked_host host =
     (toLowerCase host = ''localhost'' \<or>
      toLowerCase host = ''127.0.0.1'' \<or>
      startsWith (toLowerCase host) ''192.168.'' \<or>
      startsWith (toLowerCase host) ''10.'' \<or>
      startsWith (toLowerCase host) ''172.'')"

text \<open>\<open>v[name]\<close> on a value that is an object, for reading a JSON body or a configuration.\<close>

fun js_prop :: "js_value \<Rightarrow> string \<Rightarrow> js_value" where
  "js_prop (JObj ps) name = get ps name"
| "js_prop v name = JUndefined"

text \<open>
  The type that Node gives to the values of \<open>req.headers\<close>: a string, or an array of
  strings.
\<close>

fun node_header_value :: "js_value \<Rightarrow> bool" where
  "node_header_value (JStr s) = True"
| "node_header_value (JArr xs) = list_all is_string xs"
| "node_header_value v = False"

definition node_headers :: "js_object \<Rightarrow> bool" where
  "node_headers headers = list_all (\<lambda>p. node_header_value (snd p)) headers"

section \<open>Example hosts and requests\<close>

text \<open>
  What the URL constructor of the WHATWG URL Standard gives on the four strings of the
  specification's test vectors that reach it: three parse, and \<open>not a url\<close>, which
  has no scheme, raises a \<open>TypeError\<close>.
\<close>

definition whatwg_examples :: "url_parser \<Rightarrow> bool" where
  "whatwg_examples URL =
     (URL ''https://example.com/path'' = Inr \<lparr>protocol = ''https:'', hostname = ''example.com''\<rparr> \<and>
      URL ''javascript:alert(1)'' = Inr \<lparr>protocol = ''javascript:'', hostname = ''''\<rparr> \<and>
      URL ''http://10.0.0.5'' = Inr \<lparr>protocol = ''http:'', hostname = ''10.0.0.5''\<rparr> \<and>
      URL ''not a url'' = Inl (JsError ''TypeError'' ''Invalid URL''))"

text \<open>
  A parser for the examples below: the results of the WHATWG parser on six strings, and
  a \<open>TypeError\<close> on every other string. The parser of the standard reads a host
  whose last label is a number as an IPv4 address and fails when one of its first three
  numbers exceeds 255, so \<open>http://172.300.1.1\<close> does not parse.
\<close>

definition URL_examples :: url_parser where
  "URL_examples s =
     (case map_of
        [(''https://example.com/path'', Inr \<lparr>protocol = ''https:'', hostname = ''example.com''\<rparr>),
         (''javascript:alert(1)'', Inr \<lparr>protocol = ''javascript:'', hostname = ''''\<rparr>),
         (''http://10.0.0.5'', Inr \<lparr>protocol = ''http:'', hostname = ''10.0.0.5''\<rparr>),
         (''http://10.example.com/'', Inr \<lparr>protocol = ''http:'', hostname = ''10.example.com''\<rparr>),
         (''not a url'', Inl (JsError ''TypeError'' ''Invalid URL'')),
         (''http://172.300.1.1'', Inl (JsError ''TypeError'' ''Invalid URL''))] s of
        Some outcome \<Rightarrow> outcome
      | None \<Rightarrow> Inl (JsError ''TypeError'' ''Invalid URL''))"

text \<open>Two hosts on which the configuration cannot be loaded.\<close>

definition fetch_rejects :: fetcher where
  "fetch_rejects path = Inl (JsError ''TypeError'' ''Failed to fetch'')"

definition fetch_not_found :: fetcher where
  "fetch_not_found path =
     Inr \<lparr>resp_ok = False, resp_status = 404,
          resp_json = Inl (JsError ''SyntaxError'' ''Unexpected token < in JSON at position 0'')\<rparr>"

text \<open>
  A request on a host that does not parse the query; a request with a header value that
  \<open>String\<close> cannot convert; a request with a number under a header that
  \<open>getClientIP\<close> reads; a clock and an untouched response.
\<close>

definition request_without_query :: request where
  "request_without_query =
     \<lparr>req_method = ''GET'',
      req_url = ''/api/country'',
      req_headers =
        [(''host'', JStr ''example.com''),
         (''x-forwarded-for'', JStr ''203.0.113.7, 10.0.0.1''),
         (''x-vercel-ip-country'', JStr ''US'')],
      req_query = None\<rparr>"

definition request_with_object_header :: request where
  "request_with_object_header =
     \<lparr>req_method = ''GET'',
      req_url = ''/api/country'',
      req_headers =
        [(''host'', JStr ''example.com''),
         (''x-vercel-ip-country'', JObj [(''toString'', JStr ''x'')])],
      req_query = Some []\<rparr>"

definition request_with_number_header :: request where
  "request_with_number_header =
     \<lparr>req_method = ''GET'',
      req_url = ''/api/country'',
      req_headers = [(''host'', JStr ''example.com''), (''x-real-ip'', JNum 5)],
      req_query = Some []\<rparr>"

definition clock_example :: clock where
  "clock_example =
     \<lparr>startTime = 1700000000000, isoTimestamp = ''2023-11-14T22:13:20.002Z'',
      debugTime = 1700000000003\<rparr>"

definition fresh_response :: response where
  "fresh_response = \<lparr>statusCode = 200, res_headers = [], res_body = None\<rparr>"

section \<open>Lemmas about detectCountry\<close>

text \<open>
  A falsy value is a primitive and converts; a value that normalizes to a valid code is
  truthy, so the guard \<open>if (value)\<close> lets it through, and it converts.
\<close>

lemma falsy_converts: "\<not> truthy v \<Longrightarrow> converts v"
  by (cases v) (simp_all add: converts_def)

lemma valid_value_truthy: "valid_value v \<Longrightarrow> truthy v"
proof -
  have "\<not> valid_value JUndefined" "\<not> valid_value JNull" "\<not> valid_value (JBool False)"
    "\<not> valid_value (JNum 0)" "\<not> valid_value (JStr [])"
    unfolding valid_value_def normalized_def by code_simp+
  then show "valid_value v \<Longrightarrow> truthy v"
    by (cases v) (auto intro: ccontr)
qed

lemma valid_value_converts: "valid_value v \<Longrightarrow> converts v"
  by (simp add: valid_value_def normalized_def converts_def split: sum.splits)

lemma valid_value_normalized:
  "valid_value v \<Longrightarrow> \<exists>code. normalized v = Inr code \<and> isValidCountryCode (JStr code)"
  by (simp add: valid_value_def split: sum.splits)

lemma converts_normalized: "converts v \<Longrightarrow> \<exists>code. normalized v = Inr code"
  by (simp add: converts_def normalized_def split: sum.splits)

text \<open>
  One round of each loop, in the words of the specification: a value that does not
  convert ends the loop with its error, a valid one with its code.
\<close>

lemma standard_loop_step:
  "standard_loop headers (header # rest) country =
     (if \<not> converts (get headers header) \<or> valid_value (get headers header)
      then normalized (get headers header)
      else standard_loop headers rest country)"
  using valid_value_truthy [of "get headers header"] falsy_converts [of "get headers header"]
  by (auto simp: Let_def valid_value_def normalized_def converts_def split: sum.splits)

lemma scan_loop_step:
  "scan_loop headers (key # rest) country =
     (if fuzzy key \<and> (\<not> converts (get headers key) \<or> valid_value (get headers key))
      then normalized (get headers key)
      else scan_loop headers rest country)"
  using valid_value_truthy [of "get headers key"] falsy_converts [of "get headers key"]
  by (auto simp: Let_def valid_value_def normalized_def converts_def fuzzy_def split: sum.splits)

lemma standard_loop_none:
  "\<forall>h \<in> set names. converts (get headers h) \<and> \<not> valid_value (get headers h) \<Longrightarrow>
   standard_loop headers names country = Inr country"
  by (induction names) (simp_all add: standard_loop_step del: standard_loop.simps(2))

lemma standard_loop_first:
  "\<forall>h \<in> set before. converts (get headers h) \<and> \<not> valid_value (get headers h) \<Longrightarrow>
   valid_value (get headers header) \<Longrightarrow>
   standard_loop headers (before @ header # rest) country = normalized (get headers header)"
  by (induction before) (simp_all add: standard_loop_step del: standard_loop.simps(2))

lemma scan_loop_none:
  "\<forall>k \<in> set ks. fuzzy k \<longrightarrow> converts (get headers k) \<and> \<not> valid_value (get headers k) \<Longrightarrow>
   scan_loop headers ks country = Inr country"
  by (induction ks) (auto simp: scan_loop_step simp del: scan_loop.simps(2))


lemma standard_loop_valid:
  "standard_loop headers names country = Inr r \<Longrightarrow> r = country \<or> isValidCountryCode (JStr r)"
proof (induction names)
  case Nil
  then show ?case by simp
next
  case (Cons header rest)
  show ?case
  proof (cases "\<not> converts (get headers header) \<or> valid_value (get headers header)")
    case True
    with Cons.prems have n: "normalized (get headers header) = Inr r"
      by (simp add: standard_loop_step del: standard_loop.simps(2))
    then have "converts (get headers header)"
      by (simp add: normalized_def converts_def split: sum.splits)
    with True have "valid_value (get headers header)" by simp
    with n show ?thesis by (simp add: valid_value_def)
  next
    case False
    with Cons show ?thesis by (simp add: standard_loop_step del: standard_loop.simps(2))
  qed
qed

lemma scan_loop_valid:
  "scan_loop headers ks country = Inr r \<Longrightarrow> r = country \<or> isValidCountryCode (JStr r)"
proof (induction ks)
  case Nil
  then show ?case by simp
next
  case (Cons key rest)
  show ?case
  proof (cases "fuzzy key \<and> (\<not> converts (get headers key) \<or> valid_value (get headers key))")
    case True
    with Cons.prems have n: "normalized (get headers key) = Inr r"
      by (simp add: scan_loop_step del: scan_loop.simps(2))
    then have "converts (get headers key)"
      by (simp add: normalized_def converts_def split: sum.splits)
    with True have "valid_value (get headers key)" by simp
    with n show ?thesis by (simp add: valid_value_def)
  next
    case False
    with Cons.prems have "scan_loop headers rest country = Inr r"
      by (auto simp: scan_loop_step simp del: scan_loop.simps(2) split: if_splits)
    then show ?thesis by (rule Cons.IH)
  qed
qed

lemma standard_loop_returns:
  "\<forall>h \<in> set names. converts (get headers h) \<Longrightarrow> \<exists>r. standard_loop headers names country = Inr r"
proof (induction names)
  case Nil
  then show ?case by simp
next
  case (Cons header rest)
  then show ?case
    using converts_normalized [of "get headers header"]
    by (auto simp: standard_loop_step simp del: standard_loop.simps(2))
qed

lemma scan_loop_returns:
  "\<forall>k \<in> set ks. converts (get headers k) \<Longrightarrow> \<exists>r. scan_loop headers ks country = Inr r"
proof (induction ks)
  case Nil
  then show ?case by simp
next
  case (Cons key rest)
  then show ?case
    using converts_normalized [of "get headers key"]
    by (auto simp: scan_loop_step simp del: scan_loop.simps(2))
qed

lemma get_convertible: "convertible headers \<Longrightarrow> converts (get headers name)"
proof (cases "map_of headers name")
  case None
  then show ?thesis by (simp add: get_def converts_def)
next
  case (Some v)
  assume "convertible headers"
  moreover from Some have "(name, v) \<in> set headers" by (rule map_of_SomeD)
  ultimately have "converts v" by (auto simp: convertible_def list_all_iff)
  with Some show ?thesis by (simp add: get_def)
qed

text \<open>What the validation accepts: exactly two letters between \<open>A\<close> and \<open>Z\<close>.\<close>

lemma upper_AZ_set: "upper_AZ c \<longleftrightarrow> c \<in> set ''ABCDEFGHIJKLMNOPQRSTUVWXYZ''"
proof
  assume "upper_AZ c"
  then have "of_char c \<in> {65..(90::nat)}" by (simp add: upper_AZ_def)
  then have "char_of (of_char c :: nat) \<in> char_of ` {65..(90::nat)}" by (rule imageI)
  then have "c \<in> char_of ` {65..(90::nat)}" by simp
  also have "char_of ` {65..(90::nat)} = set ''ABCDEFGHIJKLMNOPQRSTUVWXYZ''"
    by code_simp
  finally show "c \<in> set ''ABCDEFGHIJKLMNOPQRSTUVWXYZ''" .
next
  assume "c \<in> set ''ABCDEFGHIJKLMNOPQRSTUVWXYZ''"
  then show "upper_AZ c" by (auto simp: upper_AZ_def)
qed

lemma isValidCountryCode_shape:
  "isValidCountryCode (JStr s) \<longleftrightarrow> length s = 2 \<and> set s \<subseteq> set ''ABCDEFGHIJKLMNOPQRSTUVWXYZ''"
proof (cases s rule: regex_AZ2_test.cases)
  case (1 a b)
  then show ?thesis
    using upper_AZ_set [of a] upper_AZ_set [of b] by (simp add: isValidCountryCode_def)
qed (auto simp: isValidCountryCode_def)

text \<open>The three stages of \<open>detectCountry\<close>, each entered while the variable still holds \<open>XX\<close>.\<close>

lemma cloudflare_step:
  "(if country = ''XX'' \<and> truthy (get headers ''cf-ipcountry'') then
      (case js_String (get headers ''cf-ipcountry'') of
         Inl e \<Rightarrow> Inl e
       | Inr s \<Rightarrow>
           if isValidCountryCode (JStr (trim (toUpperCase s)))
           then Inr (trim (toUpperCase s)) else Inr country)
    else Inr country) =
   (if country = ''XX'' \<and>
       (\<not> converts (get headers ''cf-ipcountry'') \<or> valid_value (get headers ''cf-ipcountry''))
    then normalized (get headers ''cf-ipcountry'') else Inr country)"
  using valid_value_truthy [of "get headers ''cf-ipcountry''"]
    falsy_converts [of "get headers ''cf-ipcountry''"]
  by (auto simp: valid_value_def normalized_def converts_def split: sum.splits)

lemma detectCountry_stages:
  "detectCountry headers =
     (case standard_loop headers vercelHeaders ''XX'' of
        Inl e \<Rightarrow> Inl e
      | Inr c1 \<Rightarrow>
          (case (if c1 = ''XX'' then scan_loop headers (keys headers) ''XX'' else Inr c1) of
             Inl e \<Rightarrow> Inl e
           | Inr c2 \<Rightarrow>
               if c2 = ''XX'' \<and>
                  (\<not> converts (get headers ''cf-ipcountry'') \<or>
                   valid_value (get headers ''cf-ipcountry''))
               then normalized (get headers ''cf-ipcountry'') else Inr c2))"
  unfolding detectCountry_def Let_def cloudflare_step
  by (simp split: sum.splits)

lemma sentinel_valid: "isValidCountryCode (JStr ''XX'')"
  by code_simp

section \<open>Lemmas about getClientIP\<close>

text \<open>On headers of the type that Node delivers, \<open>getClientIP\<close> does not raise.\<close>

lemma get_node_headers:
  "node_headers headers \<Longrightarrow> get headers name = JUndefined \<or> node_header_value (get headers name)"
proof (cases "map_of headers name")
  case None
  then show ?thesis by (simp add: get_def)
next
  case (Some v)
  assume "node_headers headers"
  moreover from Some have "(name, v) \<in> set headers" by (rule map_of_SomeD)
  ultimately have "node_header_value v" by (auto simp: node_headers_def list_all_iff)
  with Some show ?thesis by (simp add: get_def)
qed

lemma first_ip_node: "node_header_value v \<Longrightarrow> \<exists>ip. first_ip v = Inr ip"
  by (cases v rule: first_ip.cases) simp_all

lemma ip_loop_node: "node_headers headers \<Longrightarrow> \<exists>ip. ip_loop headers names = Inr ip"
proof (induction names)
  case Nil
  then show ?case by simp
next
  case (Cons header rest)
  let ?v = "js_or (get headers header) (get headers (toLowerCase header))"
  show ?case
  proof (cases "truthy ?v")
    case False
    with Cons show ?thesis by (simp add: Let_def)
  next
    case True
    have "?v = JUndefined \<or> node_header_value ?v"
      using get_node_headers [OF Cons.prems, of header]
        get_node_headers [OF Cons.prems, of "toLowerCase header"]
      by (auto simp: js_or_def)
    with True have "node_header_value ?v" by auto
    then obtain ip where "first_ip ?v = Inr ip" using first_ip_node by blast
    with True Cons show ?thesis by (simp add: Let_def)
  qed
qed

lemma getClientIP_node: "node_headers headers \<Longrightarrow> \<exists>ip. getClientIP headers = Inr ip"
  unfolding getClientIP_def by (rule ip_loop_node)

text \<open>Strings and arrays of strings convert, so headers of that type are convertible.\<close>

lemma collect_strings: "list_all is_string xs \<Longrightarrow>
  \<exists>ss. collect (map (\<lambda>x. case x of JUndefined \<Rightarrow> Inr [] | JNull \<Rightarrow> Inr [] | _ \<Rightarrow> js_String x) xs) = Inr ss"
proof (induction xs)
  case Nil
  then show ?case by simp
next
  case (Cons x xs)
  then obtain s where "x = JStr s" by (cases x) simp_all
  with Cons show ?case by auto
qed

lemma node_header_value_converts: "node_header_value v \<Longrightarrow> converts v"
proof (cases v)
  case (JArr xs)
  assume "node_header_value v"
  with JArr have "list_all is_string xs" by simp
  from collect_strings [OF this] JArr show ?thesis by (auto simp: converts_def)
qed (simp_all add: converts_def)

lemma node_headers_convertible: "node_headers headers \<Longrightarrow> convertible headers"
  by (auto simp: node_headers_def convertible_def list_all_iff intro: node_header_value_converts)

section \<open>Country detection: the claims\<close>

text \<open>
  C1 (amended). When one of the five exact header names carries a value that normalizes
  to a valid code other than \<open>XX\<close>, and no name before it in the fixed order carries a
  valid value, \<open>detectCountry\<close> returns that normalized code, and it is the result of
  the first loop alone: the scan of all headers and the \<open>cf-ipcountry\<close> header are not
  consulted. A literal \<open>XX\<close> passes the validation but leaves the variable equal to
  the sentinel, so the later stages still run. The values under the names before the
  deciding one are read first and have to convert, as every string and every array of
  strings does; the values of all other headers are free.
\<close>

theorem exact_header_code_returned:
  assumes "vercelHeaders = before @ header # rest"
    and "\<forall>h \<in> set before. \<not> valid_value (get headers h)"
    and "\<forall>h \<in> set before. converts (get headers h)"
    and "valid_value (get headers header)"
    and "normalized (get headers header) \<noteq> Inr ''XX''"
  shows "detectCountry headers = normalized (get headers header) \<and>
         detectCountry headers = standard_loop headers vercelHeaders ''XX''"
proof -
  have l: "standard_loop headers vercelHeaders ''XX'' = normalized (get headers header)"
    unfolding assms(1) using assms(2,3,4) by (intro standard_loop_first) auto
  from assms(4) obtain code where c: "normalized (get headers header) = Inr code"
    using valid_value_normalized by blast
  with assms(5) have "code \<noteq> ''XX''" by simp
  with l c show ?thesis by (simp add: detectCountry_stages)
qed

theorem exact_header_code_returned_witness:
  "vercelHeaders = [''x-vercel-ip-country''] @ ''X-Vercel-Ip-Country'' #
      [''X-VERCEL-IP-COUNTRY'', ''x-vercel-ipcountry'', ''X-Vercel-IPCountry''] \<and>
   list_all
     (\<lambda>h. \<not> valid_value (get [(''x-vercel-ip-country'', JStr ''usa''), (''X-Vercel-Ip-Country'', JStr '' gb''),
                                 (''cf-ipcountry'', JStr ''FR'')] h))
     [''x-vercel-ip-country''] \<and>
   list_all
     (\<lambda>h. converts (get [(''x-vercel-ip-country'', JStr ''usa''), (''X-Vercel-Ip-Country'', JStr '' gb''),
                            (''cf-ipcountry'', JStr ''FR'')] h))
     [''x-vercel-ip-country''] \<and>
   valid_value (get [(''x-vercel-ip-country'', JStr ''usa''), (''X-Vercel-Ip-Country'', JStr '' gb''),
                     (''cf-ipcountry'', JStr ''FR'')] ''X-Vercel-Ip-Country'') \<and>
   normalized (get [(''x-vercel-ip-country'', JStr ''usa''), (''X-Vercel-Ip-Country'', JStr '' gb''),
                    (''cf-ipcountry'', JStr ''FR'')] ''X-Vercel-Ip-Country'') \<noteq> Inr ''XX'' \<and>
   detectCountry [(''x-vercel-ip-country'', JStr ''usa''), (''X-Vercel-Ip-Country'', JStr '' gb''),
                  (''cf-ipcountry'', JStr ''FR'')] = Inr ''GB''"
proof -
  let ?hs = "[(''x-vercel-ip-country'', JStr ''usa''), (''X-Vercel-Ip-Country'', JStr '' gb''),
              (''cf-ipcountry'', JStr ''FR'')]"
  have h1: "vercelHeaders = [''x-vercel-ip-country''] @ ''X-Vercel-Ip-Country'' #
      [''X-VERCEL-IP-COUNTRY'', ''x-vercel-ipcountry'', ''X-Vercel-IPCountry'']"
    by (simp add: vercelHeaders_def)
  have h2: "\<forall>h \<in> set [''x-vercel-ip-country'']. \<not> valid_value (get ?hs h)" by code_simp
  have h3: "\<forall>h \<in> set [''x-vercel-ip-country'']. converts (get ?hs h)" by code_simp
  have h4: "valid_value (get ?hs ''X-Vercel-Ip-Country'')" by code_simp
  have h5: "normalized (get ?hs ''X-Vercel-Ip-Country'') \<noteq> Inr ''XX''" by code_simp
  have h6: "normalized (get ?hs ''X-Vercel-Ip-Country'') = Inr ''GB''" by code_simp
  from exact_header_code_returned [OF h1 h2 h3 h4 h5] h6
  have "detectCountry ?hs = Inr ''GB''" by simp
  moreover have "list_all (\<lambda>h. \<not> valid_value (get ?hs h)) [''x-vercel-ip-country'']"
    using h2 by (simp only: list_all_iff)
  moreover have "list_all (\<lambda>h. converts (get ?hs h)) [''x-vercel-ip-country'']"
    using h3 by (simp only: list_all_iff)
  ultimately show ?thesis using h1 h4 h5 by (intro conjI)
qed

text \<open>
  The example of the claim as it is written: \<open>x-vercel-ip-country: "xx"\<close> is present
  and normalizes to the valid pair \<open>XX\<close>, and with \<open>cf-ipcountry: "FR"\<close> beside it the
  result is \<open>FR\<close>.
\<close>

theorem literal_XX_counterexample:
  "valid_value (get [(''x-vercel-ip-country'', JStr ''xx''), (''cf-ipcountry'', JStr ''FR'')]
      ''x-vercel-ip-country'') \<and>
   normalized (get [(''x-vercel-ip-country'', JStr ''xx''), (''cf-ipcountry'', JStr ''FR'')]
      ''x-vercel-ip-country'') = Inr ''XX'' \<and>
   detectCountry [(''x-vercel-ip-country'', JStr ''xx''), (''cf-ipcountry'', JStr ''FR'')] = Inr ''FR''"
  by code_simp

text \<open>
  C2 (amended). Whenever \<open>detectCountry\<close> returns, its result has exactly two
  characters, both letters between \<open>A\<close> and \<open>Z\<close>; the sentinel \<open>XX\<close> is of that
  shape. On a header map whose values all convert to a string it does return; header
  maps of strings and arrays of strings are such maps. When moreover no exact name,
  no header found by the scan and not \<open>cf-ipcountry\<close> carries a valid value, the
  result is \<open>XX\<close>.
\<close>

theorem result_is_alpha2_or_sentinel:
  "(\<forall>c. detectCountry headers = Inr c \<longrightarrow>
      length c = 2 \<and> set c \<subseteq> set ''ABCDEFGHIJKLMNOPQRSTUVWXYZ'') \<and>
   (convertible headers \<longrightarrow> (\<exists>c. detectCountry headers = Inr c)) \<and>
   (node_headers headers \<longrightarrow> (\<exists>c. detectCountry headers = Inr c)) \<and>
   (convertible headers \<and>
    (\<forall>h \<in> set vercelHeaders. \<not> valid_value (get headers h)) \<and>
    (\<forall>k \<in> set (keys headers). fuzzy k \<longrightarrow> \<not> valid_value (get headers k)) \<and>
    \<not> valid_value (get headers ''cf-ipcountry'')
    \<longrightarrow> detectCountry headers = Inr ''XX'')"
proof -
  have shape: "length c = 2 \<and> set c \<subseteq> set ''ABCDEFGHIJKLMNOPQRSTUVWXYZ''"
    if r: "detectCountry headers = Inr c" for c
  proof -
    from r obtain c1 where c1: "standard_loop headers vercelHeaders ''XX'' = Inr c1"
      by (auto simp: detectCountry_stages split: sum.splits)
    from r c1 obtain c2
      where c2: "(if c1 = ''XX'' then scan_loop headers (keys headers) ''XX'' else Inr c1) = Inr c2"
      by (auto simp: detectCountry_stages split: sum.splits)
    have v1: "isValidCountryCode (JStr c1)"
      using standard_loop_valid [OF c1] sentinel_valid by auto
    have v2: "isValidCountryCode (JStr c2)"
    proof (cases "c1 = ''XX''")
      case True
      with c2 have "scan_loop headers (keys headers) ''XX'' = Inr c2" by simp
      from scan_loop_valid [OF this] sentinel_valid show ?thesis by auto
    next
      case False
      with c2 v1 show ?thesis by simp
    qed
    have "isValidCountryCode (JStr c)"
    proof (cases "c2 = ''XX'' \<and> (\<not> converts (get headers ''cf-ipcountry'') \<or>
        valid_value (get headers ''cf-ipcountry''))")
      case True
      with r c1 c2 have n: "normalized (get headers ''cf-ipcountry'') = Inr c"
        by (simp add: detectCountry_stages)
      then have "converts (get headers ''cf-ipcountry'')"
        by (simp add: normalized_def converts_def split: sum.splits)
      with True have "valid_value (get headers ''cf-ipcountry'')" by simp
      with n show ?thesis by (simp add: valid_value_def)
    next
      case False
      with r c1 c2 have "c = c2" by (auto simp: detectCountry_stages split: if_splits)
      with v2 show ?thesis by simp
    qed
    then show ?thesis by (simp only: isValidCountryCode_shape)
  qed
  have returns: "\<exists>c. detectCountry headers = Inr c" if cv: "convertible headers"
  proof -
    from cv have g: "converts (get headers name)" for name by (rule get_convertible)
    obtain c1 where c1: "standard_loop headers vercelHeaders ''XX'' = Inr c1"
      using standard_loop_returns [of vercelHeaders headers "''XX''"] g by blast
    obtain c2 where c2: "scan_loop headers (keys headers) ''XX'' = Inr c2"
      using scan_loop_returns [of "keys headers" headers "''XX''"] g by blast
    obtain c3 where c3: "normalized (get headers ''cf-ipcountry'') = Inr c3"
      using converts_normalized [OF g] by blast
    from c1 c2 c3 show ?thesis by (simp add: detectCountry_stages)
  qed
  have none: "detectCountry headers = Inr ''XX''"
    if cv: "convertible headers"
      and "\<forall>h \<in> set vercelHeaders. \<not> valid_value (get headers h)"
      and "\<forall>k \<in> set (keys headers). fuzzy k \<longrightarrow> \<not> valid_value (get headers k)"
      and "\<not> valid_value (get headers ''cf-ipcountry'')"
  proof -
    from cv have g: "converts (get headers name)" for name by (rule get_convertible)
    have "standard_loop headers vercelHeaders ''XX'' = Inr ''XX''"
      using that(2) g by (intro standard_loop_none) simp
    moreover have "scan_loop headers (keys headers) ''XX'' = Inr ''XX''"
      using that(3) g by (intro scan_loop_none) simp
    ultimately show ?thesis using that(4) g by (simp add: detectCountry_stages)
  qed
  have node: "\<exists>c. detectCountry headers = Inr c" if "node_headers headers"
    using that by (intro returns node_headers_convertible)
  from shape returns node none show ?thesis by blast
qed

theorem result_is_alpha2_or_sentinel_witness:
  "convertible [(''accept'', JStr ''text/html''), (''x-vercel-ip-country'', JStr ''usa''),
                (''x-vercel-country-hint'', JArr [JStr ''u'', JStr ''s'']),
                (''cf-ipcountry'', JNum 12)] \<and>
   list_all
     (\<lambda>h. \<not> valid_value (get [(''accept'', JStr ''text/html''), (''x-vercel-ip-country'', JStr ''usa''),
                          (''x-vercel-country-hint'', JArr [JStr ''u'', JStr ''s'']),
                          (''cf-ipcountry'', JNum 12)] h))
     vercelHeaders \<and>
   list_all
     (\<lambda>k. \<not> (fuzzy k \<and>
            valid_value (get [(''accept'', JStr ''text/html''), (''x-vercel-ip-country'', JStr ''usa''),
                              (''x-vercel-country-hint'', JArr [JStr ''u'', JStr ''s'']),
                              (''cf-ipcountry'', JNum 12)] k)))
     (keys [(''accept'', JStr ''text/html''), (''x-vercel-ip-country'', JStr ''usa''),
            (''x-vercel-country-hint'', JArr [JStr ''u'', JStr ''s'']),
            (''cf-ipcountry'', JNum 12)]) \<and>
   \<not> valid_value (get [(''accept'', JStr ''text/html''), (''x-vercel-ip-country'', JStr ''usa''),
                          (''x-vercel-country-hint'', JArr [JStr ''u'', JStr ''s'']),
                          (''cf-ipcountry'', JNum 12)] ''cf-ipcountry'') \<and>
   detectCountry [(''accept'', JStr ''text/html''), (''x-vercel-ip-country'', JStr ''usa''),
                          (''x-vercel-country-hint'', JArr [JStr ''u'', JStr ''s'']),
                          (''cf-ipcountry'', JNum 12)] = Inr ''XX'' \<and>
   length ''XX'' = 2 \<and>
   convertible [(''x-vercel-ip-country'', JArr [JStr ''pt'']), (''cf-ipcountry'', JObj [])] \<and>
   detectCountry [(''x-vercel-ip-country'', JArr [JStr ''pt'']), (''cf-ipcountry'', JObj [])] = Inr ''PT''"
proof -
  let ?hs = "[(''accept'', JStr ''text/html''), (''x-vercel-ip-country'', JStr ''usa''),
              (''x-vercel-country-hint'', JArr [JStr ''u'', JStr ''s'']),
              (''cf-ipcountry'', JNum 12)]"
  let ?gs = "[(''x-vercel-ip-country'', JArr [JStr ''pt'']), (''cf-ipcountry'', JObj [])]"
  have h0: "convertible ?hs" by code_simp
  have h1: "\<forall>h \<in> set vercelHeaders. \<not> valid_value (get ?hs h)" by code_simp
  have h2: "\<forall>k \<in> set (keys ?hs). fuzzy k \<longrightarrow> \<not> valid_value (get ?hs k)" by code_simp
  have h3: "\<not> valid_value (get ?hs ''cf-ipcountry'')" by code_simp
  note r = result_is_alpha2_or_sentinel [of ?hs]
  from r h0 h1 h2 h3 have x: "detectCountry ?hs = Inr ''XX''" by blast
  from r x have len: "length ''XX'' = 2" by blast
  have g0: "convertible ?gs" by code_simp
  from result_is_alpha2_or_sentinel [of ?gs] g0 obtain c where "detectCountry ?gs = Inr c"
    by blast
  moreover have "detectCountry ?gs = Inr ''PT''" by code_simp
  ultimately have g: "detectCountry ?gs = Inr ''PT''" by simp
  have l1: "list_all (\<lambda>h. \<not> valid_value (get ?hs h)) vercelHeaders"
    using h1 by (simp only: list_all_iff)
  have l2: "list_all (\<lambda>k. \<not> (fuzzy k \<and> valid_value (get ?hs k))) (keys ?hs)"
    using h2 by (simp only: list_all_iff de_Morgan_conj imp_conv_disj)
  from h0 l1 l2 h3 x len g0 g show ?thesis by (intro conjI)
qed

text \<open>
  A header value of another type on which \<open>detectCountry\<close> fails: the plain object
  \<open>{toString: "x"}\<close> under an exact name. \<open>String(value)\<close> raises a \<open>TypeError\<close>
  and nothing in \<open>detectCountry\<close> catches it.
\<close>

theorem object_with_toString_counterexample:
  "js_String (JObj [(''toString'', JStr ''x'')]) =
     Inl (JsError ''TypeError'' ''Cannot convert object to primitive value'') \<and>
   detectCountry [(''x-vercel-ip-country'', JObj [(''toString'', JStr ''x'')])] =
     Inl (JsError ''TypeError'' ''Cannot convert object to primitive value'')"
  by code_simp

text \<open>
  C5 (amended). Let an exact header name carry a valid code, the first valid one in the
  fixed order, and \<open>cf-ipcountry\<close> a different valid code. When the code of the exact
  name is not \<open>XX\<close>, the result is that code and not the one of \<open>cf-ipcountry\<close>. When
  it is \<open>XX\<close>, the later stages decide: the result is what the scan of all headers
  finds if that is not \<open>XX\<close>, and the code of \<open>cf-ipcountry\<close> otherwise.
\<close>

theorem exact_header_beats_cloudflare:
  assumes "vercelHeaders = before @ header # rest"
    and "\<forall>h \<in> set before. \<not> valid_value (get headers h)"
    and "\<forall>h \<in> set before. converts (get headers h)"
    and "valid_value (get headers header)"
    and "valid_value (get headers ''cf-ipcountry'')"
    and "normalized (get headers header) \<noteq> normalized (get headers ''cf-ipcountry'')"
  shows "(normalized (get headers header) \<noteq> Inr ''XX'' \<longrightarrow>
            detectCountry headers = normalized (get headers header) \<and>
            detectCountry headers \<noteq> normalized (get headers ''cf-ipcountry'')) \<and>
         (normalized (get headers header) = Inr ''XX'' \<longrightarrow>
            detectCountry headers =
              (case scan_loop headers (keys headers) ''XX'' of
                 Inl e \<Rightarrow> Inl e
               | Inr c \<Rightarrow> if c = ''XX'' then normalized (get headers ''cf-ipcountry'') else Inr c))"
proof -
  have l: "standard_loop headers vercelHeaders ''XX'' = normalized (get headers header)"
    unfolding assms(1) using assms(2,3,4) by (intro standard_loop_first) auto
  from assms(4) obtain code where c: "normalized (get headers header) = Inr code"
    using valid_value_normalized by blast
  have a: "detectCountry headers = normalized (get headers header) \<and>
      detectCountry headers \<noteq> normalized (get headers ''cf-ipcountry'')"
    if "normalized (get headers header) \<noteq> Inr ''XX''"
  proof -
    from that c have "code \<noteq> ''XX''" by simp
    with l c have "detectCountry headers = normalized (get headers header)"
      by (simp add: detectCountry_stages)
    with assms(6) show ?thesis by simp
  qed
  have b: "detectCountry headers =
      (case scan_loop headers (keys headers) ''XX'' of
         Inl e \<Rightarrow> Inl e
       | Inr c \<Rightarrow> if c = ''XX'' then normalized (get headers ''cf-ipcountry'') else Inr c)"
    if "normalized (get headers header) = Inr ''XX''"
    using that l assms(5) by (simp add: detectCountry_stages split: sum.splits)
  from a b show ?thesis by blast
qed

theorem exact_header_beats_cloudflare_witness:
  "vercelHeaders = [] @ ''x-vercel-ip-country'' #
      [''X-Vercel-Ip-Country'', ''X-VERCEL-IP-COUNTRY'', ''x-vercel-ipcountry'', ''X-Vercel-IPCountry''] \<and>
   valid_value (get [(''cf-ipcountry'', JStr ''FR''), (''x-vercel-ip-country'', JStr ''us'')] ''x-vercel-ip-country'') \<and>
   valid_value (get [(''cf-ipcountry'', JStr ''FR''), (''x-vercel-ip-country'', JStr ''us'')] ''cf-ipcountry'') \<and>
   normalized (get [(''cf-ipcountry'', JStr ''FR''), (''x-vercel-ip-country'', JStr ''us'')] ''x-vercel-ip-country'') \<noteq>
     normalized (get [(''cf-ipcountry'', JStr ''FR''), (''x-vercel-ip-country'', JStr ''us'')] ''cf-ipcountry'') \<and>
   normalized (get [(''cf-ipcountry'', JStr ''FR''), (''x-vercel-ip-country'', JStr ''us'')] ''x-vercel-ip-country'') \<noteq> Inr ''XX'' \<and>
   detectCountry [(''cf-ipcountry'', JStr ''FR''), (''x-vercel-ip-country'', JStr ''us'')] = Inr ''US'' \<and>
   valid_value (get [(''x-my-vercel-country'', JStr ''it''), (''x-vercel-ip-country'', JStr ''XX''),
                     (''cf-ipcountry'', JStr ''ES'')] ''x-vercel-ip-country'') \<and>
   valid_value (get [(''x-my-vercel-country'', JStr ''it''), (''x-vercel-ip-country'', JStr ''XX''),
                     (''cf-ipcountry'', JStr ''ES'')] ''cf-ipcountry'') \<and>
   normalized (get [(''x-my-vercel-country'', JStr ''it''), (''x-vercel-ip-country'', JStr ''XX''),
                    (''cf-ipcountry'', JStr ''ES'')] ''x-vercel-ip-country'') = Inr ''XX'' \<and>
   normalized (get [(''x-my-vercel-country'', JStr ''it''), (''x-vercel-ip-country'', JStr ''XX''),
                    (''cf-ipcountry'', JStr ''ES'')] ''cf-ipcountry'') = Inr ''ES'' \<and>
   scan_loop [(''x-my-vercel-country'', JStr ''it''), (''x-vercel-ip-country'', JStr ''XX''),
              (''cf-ipcountry'', JStr ''ES'')]
     (keys [(''x-my-vercel-country'', JStr ''it''), (''x-vercel-ip-country'', JStr ''XX''),
            (''cf-ipcountry'', JStr ''ES'')]) ''XX'' = Inr ''IT'' \<and>
   detectCountry [(''x-my-vercel-country'', JStr ''it''), (''x-vercel-ip-country'', JStr ''XX''),
                  (''cf-ipcountry'', JStr ''ES'')] = Inr ''IT''"
proof -
  let ?hs = "[(''cf-ipcountry'', JStr ''FR''), (''x-vercel-ip-country'', JStr ''us'')]"
  let ?gs = "[(''x-my-vercel-country'', JStr ''it''), (''x-vercel-ip-country'', JStr ''XX''),
              (''cf-ipcountry'', JStr ''ES'')]"
  have h1: "vercelHeaders = [] @ ''x-vercel-ip-country'' #
      [''X-Vercel-Ip-Country'', ''X-VERCEL-IP-COUNTRY'', ''x-vercel-ipcountry'', ''X-Vercel-IPCountry'']"
    by (simp add: vercelHeaders_def)
  have h2: "\<forall>h \<in> set []. \<not> valid_value (get ?hs h)" by simp
  have h2': "\<forall>h \<in> set []. converts (get ?hs h)" by simp
  have h3: "valid_value (get ?hs ''x-vercel-ip-country'')" by code_simp
  have h4: "valid_value (get ?hs ''cf-ipcountry'')" by code_simp
  have h5: "normalized (get ?hs ''x-vercel-ip-country'') \<noteq> normalized (get ?hs ''cf-ipcountry'')"
    by code_simp
  have h6: "normalized (get ?hs ''x-vercel-ip-country'') \<noteq> Inr ''XX''" by code_simp
  have h7: "normalized (get ?hs ''x-vercel-ip-country'') = Inr ''US''" by code_simp
  from exact_header_beats_cloudflare [OF h1 h2 h2' h3 h4 h5, THEN conjunct1, THEN mp, OF h6] h7
  have r: "detectCountry ?hs = Inr ''US''" by simp
  have g2: "\<forall>h \<in> set []. \<not> valid_value (get ?gs h)" by simp
  have g2': "\<forall>h \<in> set []. converts (get ?gs h)" by simp
  have g3: "valid_value (get ?gs ''x-vercel-ip-country'')" by code_simp
  have g4: "valid_value (get ?gs ''cf-ipcountry'')" by code_simp
  have g6: "normalized (get ?gs ''x-vercel-ip-country'') = Inr ''XX''" by code_simp
  have g7: "normalized (get ?gs ''cf-ipcountry'') = Inr ''ES''" by code_simp
  have g5: "normalized (get ?gs ''x-vercel-ip-country'') \<noteq> normalized (get ?gs ''cf-ipcountry'')"
    by (simp only: g6 g7) simp
  have g8: "scan_loop ?gs (keys ?gs) ''XX'' = Inr ''IT''" by code_simp
  from exact_header_beats_cloudflare [OF h1 g2 g2' g3 g4 g5, THEN conjunct2, THEN mp, OF g6]
  have "detectCountry ?gs =
      (case scan_loop ?gs (keys ?gs) ''XX'' of
         Inl e \<Rightarrow> Inl e
       | Inr c \<Rightarrow> if c = ''XX'' then normalized (get ?gs ''cf-ipcountry'') else Inr c)" .
  then have s: "detectCountry ?gs = Inr ''IT''" by (simp only: g8) simp
  from h1 h3 h4 h5 h6 r g3 g4 g6 g7 g8 s show ?thesis by (intro conjI)
qed

text \<open>
  With the valid pair \<open>XX\<close> under an exact name and \<open>DE\<close> under \<open>cf-ipcountry\<close>, the
  two codes are valid and different, and the result is the one of \<open>cf-ipcountry\<close>.
\<close>

theorem cloudflare_overrides_XX_counterexample:
  "''X-Vercel-Ip-Country'' \<in> set vercelHeaders \<and>
   valid_value (get [(''X-Vercel-Ip-Country'', JStr ''XX''), (''cf-ipcountry'', JStr ''DE'')]
      ''X-Vercel-Ip-Country'') \<and>
   valid_value (get [(''X-Vercel-Ip-Country'', JStr ''XX''), (''cf-ipcountry'', JStr ''DE'')]
      ''cf-ipcountry'') \<and>
   normalized (get [(''X-Vercel-Ip-Country'', JStr ''XX''), (''cf-ipcountry'', JStr ''DE'')]
      ''X-Vercel-Ip-Country'') = Inr ''XX'' \<and>
   normalized (get [(''X-Vercel-Ip-Country'', JStr ''XX''), (''cf-ipcountry'', JStr ''DE'')]
      ''cf-ipcountry'') = Inr ''DE'' \<and>
   detectCountry [(''X-Vercel-Ip-Country'', JStr ''XX''), (''cf-ipcountry'', JStr ''DE'')] = Inr ''DE''"
  by code_simp

text \<open>
  C6 (amended). The third stage reads the property named exactly \<open>cf-ipcountry\<close>: when
  no exact name and no header found by the scan carries a valid value, and the header
  of that exact name carries one, the result is its normalized value. The values that
  the first two stages read have to convert, as every string and every array of strings
  does.
\<close>

theorem cloudflare_exact_name:
  assumes "\<forall>h \<in> set vercelHeaders. \<not> valid_value (get headers h)"
    and "\<forall>k \<in> set (keys headers). fuzzy k \<longrightarrow> \<not> valid_value (get headers k)"
    and "\<forall>h \<in> set vercelHeaders. converts (get headers h)"
    and "\<forall>k \<in> set (keys headers). fuzzy k \<longrightarrow> converts (get headers k)"
    and "valid_value (get headers ''cf-ipcountry'')"
  shows "detectCountry headers = normalized (get headers ''cf-ipcountry'')"
proof -
  have "standard_loop headers vercelHeaders ''XX'' = Inr ''XX''"
    using assms(1,3) by (intro standard_loop_none) simp
  moreover have "scan_loop headers (keys headers) ''XX'' = Inr ''XX''"
    using assms(2,4) by (intro scan_loop_none) simp
  ultimately show ?thesis using assms(5) by (simp add: detectCountry_stages)
qed

theorem cloudflare_exact_name_witness:
  "list_all (\<lambda>h. \<not> valid_value (get [(''host'', JStr ''example.com''), (''cf-ipcountry'', JStr ''fr'')] h))
     vercelHeaders \<and>
   list_all (\<lambda>k. \<not> (fuzzy k \<and>
               valid_value (get [(''host'', JStr ''example.com''), (''cf-ipcountry'', JStr ''fr'')] k)))
     (keys [(''host'', JStr ''example.com''), (''cf-ipcountry'', JStr ''fr'')]) \<and>
   convertible [(''host'', JStr ''example.com''), (''cf-ipcountry'', JStr ''fr'')] \<and>
   valid_value (get [(''host'', JStr ''example.com''), (''cf-ipcountry'', JStr ''fr'')] ''cf-ipcountry'') \<and>
   detectCountry [(''host'', JStr ''example.com''), (''cf-ipcountry'', JStr ''fr'')] = Inr ''FR''"
proof -
  let ?hs = "[(''host'', JStr ''example.com''), (''cf-ipcountry'', JStr ''fr'')]"
  have h1: "\<forall>h \<in> set vercelHeaders. \<not> valid_value (get ?hs h)" by code_simp
  have h2: "\<forall>k \<in> set (keys ?hs). fuzzy k \<longrightarrow> \<not> valid_value (get ?hs k)" by code_simp
  have cv: "convertible ?hs" by code_simp
  have h3: "\<forall>h \<in> set vercelHeaders. converts (get ?hs h)"
    using get_convertible [OF cv] by simp
  have h4: "\<forall>k \<in> set (keys ?hs). fuzzy k \<longrightarrow> converts (get ?hs k)"
    using get_convertible [OF cv] by simp
  have h5: "valid_value (get ?hs ''cf-ipcountry'')" by code_simp
  have h6: "normalized (get ?hs ''cf-ipcountry'') = Inr ''FR''" by code_simp
  from cloudflare_exact_name [OF h1 h2 h3 h4 h5] h6 have "detectCountry ?hs = Inr ''FR''" by simp
  moreover have "list_all (\<lambda>h. \<not> valid_value (get ?hs h)) vercelHeaders"
    using h1 by (simp only: list_all_iff)
  moreover have "list_all (\<lambda>k. \<not> (fuzzy k \<and> valid_value (get ?hs k))) (keys ?hs)"
    using h2 by (simp only: list_all_iff de_Morgan_conj imp_conv_disj)
  ultimately show ?thesis using cv h5 by (intro conjI)
qed

text \<open>
  Under another letter-casing the header is not read: the name \<open>CF-IPCountry\<close> equals
  \<open>cf-ipcountry\<close> once lower-cased and its value is valid, the first two stages leave
  the variable at \<open>XX\<close>, and the result is the sentinel.
\<close>

theorem cloudflare_other_casing_counterexample:
  "toLowerCase ''CF-IPCountry'' = ''cf-ipcountry'' \<and>
   valid_value (get [(''CF-IPCountry'', JStr ''FR'')] ''CF-IPCountry'') \<and>
   standard_loop [(''CF-IPCountry'', JStr ''FR'')] vercelHeaders ''XX'' = Inr ''XX'' \<and>
   scan_loop [(''CF-IPCountry'', JStr ''FR'')] (keys [(''CF-IPCountry'', JStr ''FR'')]) ''XX'' = Inr ''XX'' \<and>
   detectCountry [(''CF-IPCountry'', JStr ''FR'')] = Inr ''XX''"
  by code_simp




section \<open>The handler: the claim\<close>

text \<open>
  C9 (amended). The response of the \<open>catch\<close> block has status 500 and the body
  \<open>{error, country: "XX", message}\<close>, where \<open>message\<close> is the message of the error
  in development mode and the fixed string \<open>An error occurred\<close> otherwise. Whenever
  the \<open>try\<close> block of a GET or POST request ends by raising an error, the handler
  answers with that response; an error of \<open>detectCountry\<close> is one, in every mode. The
  extraction of the client address runs before the \<open>try\<close> block: an error leaves the
  handler exactly when \<open>getClientIP\<close> raises it, which it does not on headers that
  are strings or arrays of strings.
\<close>

theorem handler_catches_runtime_error:
  "statusCode (catch_block node_env error res0) = 500 \<and>
   res_body (catch_block node_env error res0) =
     Some (JObj [(''error'', JStr ''Internal server error''),
                 (''country'', JStr ''XX''),
                 (''message'', JStr (if node_env = Some ''development'' then error_message error
                                     else ''An error occurred''))]) \<and>
   (getClientIP (req_headers req) = Inr clientIP \<and>
    (req_method req = ''GET'' \<or> req_method req = ''POST'') \<and>
    try_block node_env clk req clientIP res = (Inl error, res')
    \<longrightarrow> handler node_env clk req res = Inr (catch_block node_env error res')) \<and>
   (getClientIP (req_headers req) = Inr clientIP \<and>
    (req_method req = ''GET'' \<or> req_method req = ''POST'') \<and>
    detectCountry (req_headers req) = Inl error
    \<longrightarrow> handler node_env clk req res = Inr (catch_block node_env error res)) \<and>
   (\<forall>e. handler node_env clk req res = Inl e \<longleftrightarrow> getClientIP (req_headers req) = Inl e) \<and>
   (node_headers (req_headers req) \<longrightarrow> (\<exists>r. handler node_env clk req res = Inr r))"
proof -
  have a: "statusCode (catch_block node_env error res0) = 500"
    by (simp add: catch_block_def json_def status_def setHeader_def)
  have b: "res_body (catch_block node_env error res0) =
     Some (JObj [(''error'', JStr ''Internal server error''),
                 (''country'', JStr ''XX''),
                 (''message'', JStr (if node_env = Some ''development'' then error_message error
                                     else ''An error occurred''))])"
    by (simp add: catch_block_def json_def status_def setHeader_def)
  have c: "handler node_env clk req res = Inr (catch_block node_env error res')"
    if "getClientIP (req_headers req) = Inr clientIP"
      and "req_method req = ''GET'' \<or> req_method req = ''POST''"
      and "try_block node_env clk req clientIP res = (Inl error, res')"
    using that by (auto simp: handler_def)
  have d: "handler node_env clk req res = Inr (catch_block node_env error res)"
    if "getClientIP (req_headers req) = Inr clientIP"
      and "req_method req = ''GET'' \<or> req_method req = ''POST''"
      and "detectCountry (req_headers req) = Inl error"
  proof -
    from that(3) have "try_block node_env clk req clientIP res = (Inl error, res)"
      by (simp add: try_block_def)
    with that(1,2) show ?thesis by (auto simp: handler_def)
  qed
  have e: "handler node_env clk req res = Inl e \<longleftrightarrow> getClientIP (req_headers req) = Inl e" for e
  proof (cases "getClientIP (req_headers req)")
    case (Inl e')
    then show ?thesis by (simp add: handler_def)
  next
    case (Inr ip)
    then show ?thesis
      by (cases "try_block node_env clk req ip res")
        (auto simp: handler_def Let_def split: sum.splits)
  qed
  have f: "\<exists>r. handler node_env clk req res = Inr r" if "node_headers (req_headers req)"
  proof -
    from that obtain ip where "getClientIP (req_headers req) = Inr ip"
      using getClientIP_node by blast
    then show ?thesis
      by (cases "try_block node_env clk req ip res") (auto simp: handler_def Let_def split: sum.splits)
  qed
  from a b c d e f show ?thesis by blast
qed

theorem handler_catches_runtime_error_witness:
  "getClientIP (req_headers request_without_query) = Inr (JStr ''203.0.113.7'') \<and>
   (req_method request_without_query = ''GET'' \<or> req_method request_without_query = ''POST'') \<and>
   fst (try_block (Some ''production'') clock_example request_without_query (JStr ''203.0.113.7'')
          fresh_response) =
     Inl (JsError ''TypeError'' ''Cannot read properties of undefined (reading 'debug')'') \<and>
   node_headers (req_headers request_without_query) \<and>
   handler (Some ''production'') clock_example request_without_query fresh_response =
     Inr \<lparr>statusCode = 500,
          res_headers =
            [(''Content-Type'', ''application/json''),
             (''Cache-Control'', ''no-cache, no-store, must-revalidate''),
             (''Pragma'', ''no-cache''),
             (''Expires'', ''0''),
             (''X-Content-Type-Options'', ''nosniff'')],
          res_body =
            Some (JObj [(''error'', JStr ''Internal server error''),
                        (''country'', JStr ''XX''),
                        (''message'', JStr ''An error occurred'')])\<rparr> \<and>
   getClientIP (req_headers request_with_object_header) = Inr (JStr ''unknown'') \<and>
   (req_method request_with_object_header = ''GET'' \<or>
    req_method request_with_object_header = ''POST'') \<and>
   detectCountry (req_headers request_with_object_header) =
     Inl (JsError ''TypeError'' ''Cannot convert object to primitive value'') \<and>
   handler (Some ''development'') clock_example request_with_object_header fresh_response =
     Inr \<lparr>statusCode = 500,
          res_headers = [(''Content-Type'', ''application/json'')],
          res_body =
            Some (JObj [(''error'', JStr ''Internal server error''),
                        (''country'', JStr ''XX''),
                        (''message'', JStr ''Cannot convert object to primitive value'')])\<rparr> \<and>
   handler (Some ''production'') clock_example request_with_object_header fresh_response =
     Inr \<lparr>statusCode = 500,
          res_headers = [(''Content-Type'', ''application/json'')],
          res_body =
            Some (JObj [(''error'', JStr ''Internal server error''),
                        (''country'', JStr ''XX''),
                        (''message'', JStr ''An error occurred'')])\<rparr>"
proof -
  let ?e = "JsError ''TypeError'' ''Cannot read properties of undefined (reading 'debug')''"
  let ?res = "\<lparr>statusCode = 200,
          res_headers =
            [(''Content-Type'', ''application/json''),
             (''Cache-Control'', ''no-cache, no-store, must-revalidate''),
             (''Pragma'', ''no-cache''),
             (''Expires'', ''0''),
             (''X-Content-Type-Options'', ''nosniff'')],
          res_body = None\<rparr>"
  have h1: "getClientIP (req_headers request_without_query) = Inr (JStr ''203.0.113.7'')"
    by code_simp
  have h2: "req_method request_without_query = ''GET'' \<or> req_method request_without_query = ''POST''"
    by (simp add: request_without_query_def)
  have h3: "try_block (Some ''production'') clock_example request_without_query (JStr ''203.0.113.7'')
          fresh_response = (Inl ?e, ?res)"
    by code_simp
  have h4: "node_headers (req_headers request_without_query)" by code_simp
  have c: "catch_block (Some ''production'') ?e ?res =
     \<lparr>statusCode = 500,
          res_headers =
            [(''Content-Type'', ''application/json''),
             (''Cache-Control'', ''no-cache, no-store, must-revalidate''),
             (''Pragma'', ''no-cache''),
             (''Expires'', ''0''),
             (''X-Content-Type-Options'', ''nosniff'')],
          res_body =
            Some (JObj [(''error'', JStr ''Internal server error''),
                        (''country'', JStr ''XX''),
                        (''message'', JStr ''An error occurred'')])\<rparr>"
    by code_simp
  note r = handler_catches_runtime_error
    [of "Some ''production''" ?e ?res request_without_query "JStr ''203.0.113.7''" clock_example
      fresh_response ?res]
  note r' = r [THEN conjunct2, THEN conjunct2, THEN conjunct1, THEN mp, OF conjI [OF h1 conjI [OF h2 h3]]]
  have h3': "fst (try_block (Some ''production'') clock_example request_without_query
      (JStr ''203.0.113.7'') fresh_response) = Inl ?e"
    by (simp only: h3 fst_conv)
  from r' c have h5: "handler (Some ''production'') clock_example request_without_query fresh_response =
     Inr \<lparr>statusCode = 500,
          res_headers =
            [(''Content-Type'', ''application/json''),
             (''Cache-Control'', ''no-cache, no-store, must-revalidate''),
             (''Pragma'', ''no-cache''),
             (''Expires'', ''0''),
             (''X-Content-Type-Options'', ''nosniff'')],
          res_body =
            Some (JObj [(''error'', JStr ''Internal server error''),
                        (''country'', JStr ''XX''),
                        (''message'', JStr ''An error occurred'')])\<rparr>"
    by (simp only:)
  let ?t = "JsError ''TypeError'' ''Cannot convert object to primitive value''"
  have k1: "getClientIP (req_headers request_with_object_header) = Inr (JStr ''unknown'')"
    by code_simp
  have k2: "req_method request_with_object_header = ''GET'' \<or>
      req_method request_with_object_header = ''POST''"
    by (simp add: request_with_object_header_def)
  have k3: "detectCountry (req_headers request_with_object_header) = Inl ?t" by code_simp
  have cd: "catch_block (Some ''development'') ?t fresh_response =
     \<lparr>statusCode = 500,
          res_headers = [(''Content-Type'', ''application/json'')],
          res_body =
            Some (JObj [(''error'', JStr ''Internal server error''),
                        (''country'', JStr ''XX''),
                        (''message'', JStr ''Cannot convert object to primitive value'')])\<rparr>"
    by code_simp
  have cp: "catch_block (Some ''production'') ?t fresh_response =
     \<lparr>statusCode = 500,
          res_headers = [(''Content-Type'', ''application/json'')],
          res_body =
            Some (JObj [(''error'', JStr ''Internal server error''),
                        (''country'', JStr ''XX''),
                        (''message'', JStr ''An error occurred'')])\<rparr>"
    by code_simp
  note d = handler_catches_runtime_error
    [of "Some ''development''" ?t fresh_response request_with_object_header "JStr ''unknown''"
      clock_example fresh_response fresh_response,
      THEN conjunct2, THEN conjunct2, THEN conjunct2, THEN conjunct1, THEN mp,
      OF conjI [OF k1 conjI [OF k2 k3]]]
  note p = handler_catches_runtime_error
    [of "Some ''production''" ?t fresh_response request_with_object_header "JStr ''unknown''"
      clock_example fresh_response fresh_response,
      THEN conjunct2, THEN conjunct2, THEN conjunct2, THEN conjunct1, THEN mp,
      OF conjI [OF k1 conjI [OF k2 k3]]]
  from d cd have k5: "handler (Some ''development'') clock_example request_with_object_header
      fresh_response =
     Inr \<lparr>statusCode = 500,
          res_headers = [(''Content-Type'', ''application/json'')],
          res_body =
            Some (JObj [(''error'', JStr ''Internal server error''),
                        (''country'', JStr ''XX''),
                        (''message'', JStr ''Cannot convert object to primitive value'')])\<rparr>"
    by (simp only:)
  from p cp have k6: "handler (Some ''production'') clock_example request_with_object_header
      fresh_response =
     Inr \<lparr>statusCode = 500,
          res_headers = [(''Content-Type'', ''application/json'')],
          res_body =
            Some (JObj [(''error'', JStr ''Internal server error''),
                        (''country'', JStr ''XX''),
                        (''message'', JStr ''An error occurred'')])\<rparr>"
    by (simp only:)
  from h1 h2 h3' h4 h5 k1 k2 k3 k5 k6 show ?thesis by (intro conjI)
qed

text \<open>
  A request whose handling raises an error that the handler does not catch: the number
  5 under \<open>x-real-ip\<close> has no method \<open>split\<close>, \<open>getClientIP\<close> raises before the
  \<open>try\<close> block is entered, and no response is written.
\<close>

theorem error_before_try_counterexample:
  "getClientIP (req_headers request_with_number_header) =
     Inl (JsError ''TypeError'' ''value.split is not a function'') \<and>
   handler (Some ''production'') clock_example request_with_number_header fresh_response =
     Inl (JsError ''TypeError'' ''value.split is not a function'') \<and>
   handler (Some ''development'') clock_example request_with_number_header fresh_response =
     Inl (JsError ''TypeError'' ''value.split is not a function'')"
  by code_simp

section \<open>utils.js: the claims\<close>

text \<open>
  C3. With the URL constructor behaving on the test vectors as the WHATWG standard
  says, \<open>isValidUrl\<close> gives: \<open>https://example.com/path\<close> true outside production;
  \<open>javascript:alert(1)\<close> false in every mode; \<open>http://10.0.0.5\<close> false in
  production and true outside it; \<open>#\<close> false in every mode; \<open>not a url\<close> false
  in every mode.
\<close>

theorem isValidUrl_test_vectors:
  assumes "whatwg_examples URL"
  shows "(\<forall>node_env. node_env \<noteq> Some ''production'' \<longrightarrow>
            isValidUrl URL node_env (JStr ''https://example.com/path'') = Inr True) \<and>
         (\<forall>node_env. isValidUrl URL node_env (JStr ''javascript:alert(1)'') = Inr False) \<and>
         isValidUrl URL (Some ''production'') (JStr ''http://10.0.0.5'') = Inr False \<and>
         (\<forall>node_env. node_env \<noteq> Some ''production'' \<longrightarrow>
            isValidUrl URL node_env (JStr ''http://10.0.0.5'') = Inr True) \<and>
         (\<forall>node_env. isValidUrl URL node_env (JStr ''#'') = Inr False) \<and>
         (\<forall>node_env. isValidUrl URL node_env (JStr ''not a url'') = Inr False)"
  using assms
  by (simp add: whatwg_examples_def isValidUrl_def isValidUrl_try_def toLowerCase_def
      lower_char_def startsWith_def)

theorem isValidUrl_test_vectors_witness:
  "whatwg_examples URL_examples \<and>
   isValidUrl URL_examples None (JStr ''https://example.com/path'') = Inr True \<and>
   isValidUrl URL_examples (Some ''development'') (JStr ''https://example.com/path'') = Inr True \<and>
   isValidUrl URL_examples (Some ''production'') (JStr ''javascript:alert(1)'') = Inr False \<and>
   isValidUrl URL_examples (Some ''development'') (JStr ''javascript:alert(1)'') = Inr False \<and>
   isValidUrl URL_examples (Some ''production'') (JStr ''http://10.0.0.5'') = Inr False \<and>
   isValidUrl URL_examples (Some ''development'') (JStr ''http://10.0.0.5'') = Inr True \<and>
   isValidUrl URL_examples (Some ''production'') (JStr ''#'') = Inr False \<and>
   isValidUrl URL_examples None (JStr ''not a url'') = Inr False"
proof -
  have h: "whatwg_examples URL_examples" unfolding whatwg_examples_def by code_simp
  note r = isValidUrl_test_vectors [OF h]
  show ?thesis using h r by simp
qed

text \<open>
  C8 (amended). On a string that parses, \<open>isValidUrl\<close> is true exactly when the
  protocol is http or https, the host is not empty and, in production only, the host
  does not pass the host test. So a parsed http or https URL with a host that passes
  the test is rejected in production and accepted in every other mode, and one with a
  host that does not pass it is accepted in production too. A string that does not
  parse is rejected in every mode.
\<close>

theorem private_host_block:
  assumes "URL url = Inr urlObj"
    and "url \<noteq> []" and "url \<noteq> ''#''"
  shows "isValidUrl URL node_env (JStr url) =
           Inr ((protocol urlObj = ''http:'' \<or> protocol urlObj = ''https:'') \<and>
                hostname urlObj \<noteq> [] \<and>
                (node_env = Some ''production'' \<longrightarrow> \<not> blocked_host (hostname urlObj))) \<and>
         (\<forall>s e. URL s = Inl e \<longrightarrow> isValidUrl URL node_env (JStr s) = Inr False)"
proof -
  have a: "isValidUrl URL node_env (JStr url) =
           Inr ((protocol urlObj = ''http:'' \<or> protocol urlObj = ''https:'') \<and>
                hostname urlObj \<noteq> [] \<and>
                (node_env = Some ''production'' \<longrightarrow> \<not> blocked_host (hostname urlObj)))"
    using assms by (auto simp: isValidUrl_def isValidUrl_try_def Let_def blocked_host_def)
  have b: "isValidUrl URL node_env (JStr s) = Inr False" if "URL s = Inl e" for s e
    using that by (simp add: isValidUrl_def isValidUrl_try_def)
  from a b show ?thesis by blast
qed

theorem private_host_block_witness:
  "URL_examples ''http://10.example.com/'' = Inr \<lparr>protocol = ''http:'', hostname = ''10.example.com''\<rparr> \<and>
   blocked_host ''10.example.com'' \<and>
   isValidUrl URL_examples (Some ''production'') (JStr ''http://10.example.com/'') = Inr False \<and>
   isValidUrl URL_examples (Some ''development'') (JStr ''http://10.example.com/'') = Inr True \<and>
   isValidUrl URL_examples None (JStr ''http://10.example.com/'') = Inr True \<and>
   URL_examples ''https://example.com/path'' = Inr \<lparr>protocol = ''https:'', hostname = ''example.com''\<rparr> \<and>
   \<not> blocked_host ''example.com'' \<and>
   isValidUrl URL_examples (Some ''production'') (JStr ''https://example.com/path'') = Inr True \<and>
   URL_examples ''not a url'' = Inl (JsError ''TypeError'' ''Invalid URL'') \<and>
   isValidUrl URL_examples (Some ''production'') (JStr ''not a url'') = Inr False"
proof -
  let ?u = "\<lparr>protocol = ''http:'', hostname = ''10.example.com''\<rparr>"
  let ?v = "\<lparr>protocol = ''https:'', hostname = ''example.com''\<rparr>"
  have h1: "URL_examples ''http://10.example.com/'' = Inr ?u" by code_simp
  have h2: "''http://10.example.com/'' \<noteq> []" and h3: "''http://10.example.com/'' \<noteq> ''#''"
    by simp_all
  have p: "blocked_host ''10.example.com''" by code_simp
  note r = private_host_block [of URL_examples "''http://10.example.com/''" ?u, OF h1 h2 h3,
      THEN conjunct1]
  have r1: "isValidUrl URL_examples (Some ''production'') (JStr ''http://10.example.com/'') = Inr False"
    using r [of "Some ''production''"] p by simp
  have r3: "isValidUrl URL_examples (Some ''development'') (JStr ''http://10.example.com/'') = Inr True"
    using r [of "Some ''development''"] by simp
  have r4: "isValidUrl URL_examples None (JStr ''http://10.example.com/'') = Inr True"
    using r [of None] by simp
  have g1: "URL_examples ''https://example.com/path'' = Inr ?v" by code_simp
  have g2: "''https://example.com/path'' \<noteq> []" and g3: "''https://example.com/path'' \<noteq> ''#''"
    by simp_all
  have q: "\<not> blocked_host ''example.com''" by code_simp
  have s1: "isValidUrl URL_examples (Some ''production'') (JStr ''https://example.com/path'') = Inr True"
    using private_host_block [of URL_examples "''https://example.com/path''" ?v
        "Some ''production''", OF g1 g2 g3, THEN conjunct1] q
    by simp
  have f1: "URL_examples ''not a url'' = Inl (JsError ''TypeError'' ''Invalid URL'')" by code_simp
  have f2: "isValidUrl URL_examples (Some ''production'') (JStr ''not a url'') = Inr False"
    using private_host_block [of URL_examples "''http://10.example.com/''" ?u
        "Some ''production''", OF h1 h2 h3, THEN conjunct2] f1
    by blast
  from h1 p r1 r3 r4 g1 q s1 f1 f2 show ?thesis by (intro conjI)
qed

text \<open>
  The host of the claim's example passes the host test, but \<open>http://172.300.1.1\<close> does
  not parse, so it is rejected outside production as well, not by the host test.
\<close>

theorem unparsable_host_counterexample:
  "blocked_host ''172.300.1.1'' \<and>
   URL_examples ''http://172.300.1.1'' = Inl (JsError ''TypeError'' ''Invalid URL'') \<and>
   isValidUrl URL_examples (Some ''development'') (JStr ''http://172.300.1.1'') = Inr False \<and>
   isValidUrl URL_examples None (JStr ''http://172.300.1.1'') = Inr False"
  by code_simp

text \<open>
  C10. \<open>isValidUrl\<close> returns a boolean for every value, every mode and every
  behaviour of the URL constructor, and never raises: a value that is not a string and
  the empty string are rejected by the guard, and a string on which the constructor
  raises is rejected through the \<open>catch\<close> block.
\<close>

theorem isValidUrl_total:
  "(\<exists>b. isValidUrl URL node_env url = Inr b) \<and>
   (\<not> is_string url \<or> url = JStr [] \<longrightarrow> isValidUrl URL node_env url = Inr False) \<and>
   (\<forall>s e. URL s = Inl e \<longrightarrow> isValidUrl URL node_env (JStr s) = Inr False)"
proof -
  have a: "\<exists>b. isValidUrl URL node_env url = Inr b"
    by (auto simp: isValidUrl_def split: sum.splits)
  have b: "isValidUrl URL node_env url = Inr False" if "\<not> is_string url \<or> url = JStr []"
    using that by (auto simp: isValidUrl_def)
  have c: "isValidUrl URL node_env (JStr s) = Inr False" if "URL s = Inl e" for s e
    using that by (simp add: isValidUrl_def isValidUrl_try_def)
  from a b c show ?thesis by blast
qed

theorem isValidUrl_total_witness:
  "\<not> is_string (JNum 42) \<and>
   isValidUrl URL_examples None (JNum 42) = Inr False \<and>
   isValidUrl URL_examples (Some ''production'') JNull = Inr False \<and>
   isValidUrl URL_examples (Some ''production'') (JObj [(''href'', JStr ''https://example.com/'')]) = Inr False \<and>
   isValidUrl URL_examples None (JStr []) = Inr False \<and>
   URL_examples ''http://'' = Inl (JsError ''TypeError'' ''Invalid URL'') \<and>
   isValidUrl URL_examples (Some ''production'') (JStr ''http://'') = Inr False"
proof -
  have h: "URL_examples ''http://'' = Inl (JsError ''TypeError'' ''Invalid URL'')" by code_simp
  have s: "\<not> is_string (JNum 42)" "\<not> is_string JNull"
    "\<not> is_string (JObj [(''href'', JStr ''https://example.com/'')])" by simp_all
  from isValidUrl_total [of URL_examples None "JNum 42"]
    isValidUrl_total [of URL_examples "Some ''production''" JNull]
    isValidUrl_total [of URL_examples "Some ''production''" "JObj [(''href'', JStr ''https://example.com/'')]"]
    isValidUrl_total [of URL_examples None "JStr []"]
    isValidUrl_total [of URL_examples "Some ''production''" "JStr ''http://''"]
    h s
  show ?thesis by simp
qed

text \<open>
  C4 (amended). The promise of \<open>loadConfig\<close> is always fulfilled. When \<open>fetch\<close>
  rejects, when the response is not \<open>ok\<close>, or when its body does not parse as JSON,
  it is fulfilled with the default configuration, which has the single redirect entry
  \<open>DEFAULT\<close>, VPN detection enabled with threshold 60, and waiting times of 1500 and
  3000 milliseconds.
\<close>

theorem loadConfig_recovers_with_default:
  "(\<exists>config. loadConfig fetch arg = Inr config) \<and>
   (\<forall>path. path = (case arg of None \<Rightarrow> ''/config.json'' | Some p \<Rightarrow> p) \<and>
      ((\<exists>e. fetch path = Inl e) \<or>
       (\<exists>r. fetch path = Inr r \<and> (\<not> resp_ok r \<or> (\<exists>e. resp_json r = Inl e))))
      \<longrightarrow> loadConfig fetch arg = Inr getDefaultConfig) \<and>
   js_prop getDefaultConfig ''redirects'' = JObj [(''DEFAULT'', JStr ''https://t.co/y5IrJWOLzN'')] \<and>
   js_prop (js_prop getDefaultConfig ''settings'') ''enableVPNDetection'' = JBool True \<and>
   js_prop (js_prop getDefaultConfig ''settings'') ''vpnDetectionThreshold'' = JNum 60 \<and>
   js_prop (js_prop getDefaultConfig ''settings'') ''minWaitTime'' = JNum 1500 \<and>
   js_prop (js_prop getDefaultConfig ''settings'') ''maxWaitTime'' = JNum 3000"
proof -
  have a: "\<exists>config. loadConfig fetch arg = Inr config"
    by (simp add: loadConfig_def Let_def split: sum.splits)
  have b: "loadConfig fetch arg = Inr getDefaultConfig"
    if "path = (case arg of None \<Rightarrow> ''/config.json'' | Some p \<Rightarrow> p)"
      and "(\<exists>e. fetch path = Inl e) \<or>
           (\<exists>r. fetch path = Inr r \<and> (\<not> resp_ok r \<or> (\<exists>e. resp_json r = Inl e)))" for path
    using that by (auto simp: loadConfig_def loadConfig_try_def Let_def split: sum.splits)
  have c: "js_prop getDefaultConfig ''redirects'' = JObj [(''DEFAULT'', JStr ''https://t.co/y5IrJWOLzN'')]"
    "js_prop (js_prop getDefaultConfig ''settings'') ''enableVPNDetection'' = JBool True"
    "js_prop (js_prop getDefaultConfig ''settings'') ''vpnDetectionThreshold'' = JNum 60"
    "js_prop (js_prop getDefaultConfig ''settings'') ''minWaitTime'' = JNum 1500"
    "js_prop (js_prop getDefaultConfig ''settings'') ''maxWaitTime'' = JNum 3000"
    by (simp_all add: getDefaultConfig_def get_def)
  from a b c show ?thesis by blast
qed

theorem loadConfig_recovers_with_default_witness:
  "fetch_rejects ''/config.json'' = Inl (JsError ''TypeError'' ''Failed to fetch'') \<and>
   loadConfig fetch_rejects None = Inr getDefaultConfig \<and>
   \<not> resp_ok \<lparr>resp_ok = False, resp_status = 404,
          resp_json = Inl (JsError ''SyntaxError'' ''Unexpected token < in JSON at position 0'')\<rparr> \<and>
   loadConfig fetch_not_found (Some ''/settings.json'') = Inr getDefaultConfig"
proof -
  have h1: "fetch_rejects ''/config.json'' = Inl (JsError ''TypeError'' ''Failed to fetch'')"
    by (simp add: fetch_rejects_def)
  have h2: "fetch_not_found ''/settings.json'' = Inr \<lparr>resp_ok = False, resp_status = 404,
          resp_json = Inl (JsError ''SyntaxError'' ''Unexpected token < in JSON at position 0'')\<rparr>"
    by (simp add: fetch_not_found_def)
  from loadConfig_recovers_with_default [of fetch_rejects None] h1
  have a: "loadConfig fetch_rejects None = Inr getDefaultConfig" by simp
  from loadConfig_recovers_with_default [of fetch_not_found "Some ''/settings.json''"] h2
  have b: "loadConfig fetch_not_found (Some ''/settings.json'') = Inr getDefaultConfig" by simp
  from a b h1 show ?thesis by simp
qed

text \<open>
  After a failed load the configuration returned has \<open>enableVPNDetection\<close> set to
  \<open>true\<close>: VPN detection is not disabled.
\<close>

theorem default_config_VPN_counterexample:
  "loadConfig fetch_rejects None = Inr getDefaultConfig \<and>
   js_prop (js_prop getDefaultConfig ''settings'') ''enableVPNDetection'' = JBool True"
  by code_simp

end
